theory Spec2Isabelle
  imports Main "HOL-Library.Sublist"
begin

section \<open>Python values and text primitives\<close>

text \<open>
  The agent runtime is Python. Text is modelled as \<open>string\<close> over ASCII; the dynamic
  values that travel through keyword arguments and through \<open>ToolResult.data\<close> are a
  small universe of Python values.
\<close>

datatype pyval =
    PNone
  | PBool bool
  | PInt int
  | PStr string
  | PList "pyval list"
  | PDict "(string \<times> pyval) list"

text \<open>
  Exceptions by class, each carrying the text that \<open>str(e)\<close> yields.
  \<open>ToolError\<close> is the repository's own class (tool\_registry.py) and derives from
  \<open>Exception\<close>, as do the builtins after it. The last three derive from
  \<open>BaseException\<close> only: \<open>asyncio.CancelledError\<close>, raised inside a coroutine
  whose task is cancelled, \<open>KeyboardInterrupt\<close> and \<open>SystemExit\<close>.
\<close>

datatype py_exception =
    ToolError string
  | TypeError string
  | NameError string
  | AttributeError string
  | OSError string
  | OtherException string
  | CancelledError string
  | KeyboardInterrupt string
  | SystemExit string

fun str_exc :: "py_exception \<Rightarrow> string" where
  "str_exc (ToolError m) = m"
| "str_exc (TypeError m) = m"
| "str_exc (NameError m) = m"
| "str_exc (AttributeError m) = m"
| "str_exc (OSError m) = m"
| "str_exc (OtherException m) = m"
| "str_exc (CancelledError m) = m"
| "str_exc (KeyboardInterrupt m) = m"
| "str_exc (SystemExit m) = m"

text \<open>\<open>isinstance(e, ToolError)\<close>, the test of an \<open>except ToolError\<close> clause.\<close>

fun is_ToolError :: "py_exception \<Rightarrow> bool" where
  "is_ToolError (ToolError m) = True"
| "is_ToolError e = False"

text \<open>\<open>isinstance(e, Exception)\<close>, the test of an \<open>except Exception\<close> clause.\<close>

fun is_Exception :: "py_exception \<Rightarrow> bool" where
  "is_Exception (CancelledError m) = False"
| "is_Exception (KeyboardInterrupt m) = False"
| "is_Exception (SystemExit m) = False"
| "is_Exception e = True"

definition lower_chr :: "char \<Rightarrow> char" where
  "lower_chr c =
     (let n = (of_char c :: nat) in if 65 \<le> n \<and> n \<le> 90 then char_of (n + 32) else c)"

definition py_lower :: "string \<Rightarrow> string" where
  "py_lower s = map lower_chr s"

definition py_startswith :: "string \<Rightarrow> string \<Rightarrow> bool" where
  "py_startswith s p = (take (length p) s = p)"

text \<open>\<open>sub in s\<close> for text.\<close>

fun py_in :: "string \<Rightarrow> string \<Rightarrow> bool" where
  "py_in sub [] = (sub = [])"
| "py_in sub (c # cs) = (py_startswith (c # cs) sub \<or> py_in sub cs)"

definition is_space :: "char \<Rightarrow> bool" where
  "is_space c = (let n = (of_char c :: nat) in n = 32 \<or> (9 \<le> n \<and> n \<le> 13) \<or> (28 \<le> n \<and> n \<le> 31))"

definition py_strip :: "string \<Rightarrow> string" where
  "py_strip s = rev (dropWhile is_space (rev (dropWhile is_space s)))"

text \<open>
  \<open>s.partition(sep)\<close> restricted to what \<open>split\<close> needs: the text before and after
  the first occurrence of a non-empty separator, if there is one.
\<close>

fun py_find_sep :: "string \<Rightarrow> string \<Rightarrow> (string \<times> string) option" where
  "py_find_sep sep [] = None"
| "py_find_sep sep (c # cs) =
     (if py_startswith (c # cs) sep then Some ([], drop (length sep) (c # cs))
      else (case py_find_sep sep cs of
              None \<Rightarrow> None
            | Some (a, b) \<Rightarrow> Some (c # a, b)))"

text \<open>\<open>s.split(sep, k)\<close>: at most \<open>k\<close> splits, from the left.\<close>

fun py_split_n :: "string \<Rightarrow> nat \<Rightarrow> string \<Rightarrow> string list" where
  "py_split_n sep 0 s = [s]"
| "py_split_n sep (Suc k) s =
     (case py_find_sep sep s of
        None \<Rightarrow> [s]
      | Some (a, b) \<Rightarrow> a # py_split_n sep k b)"

text \<open>
  \<open>s.split(sep)\<close> without a limit: a non-empty separator can occur at most
  \<open>length s\<close> times, so that many splits are all of them.
\<close>

definition py_split :: "string \<Rightarrow> string \<Rightarrow> string list" where
  "py_split sep s = py_split_n sep (length s) s"

fun py_join :: "string \<Rightarrow> string list \<Rightarrow> string" where
  "py_join sep [] = []"
| "py_join sep [x] = x"
| "py_join sep (x # y # ys) = x @ sep @ py_join sep (y # ys)"

text \<open>Truth value of a Python value, as \<open>if v:\<close> tests it.\<close>

fun py_truthy :: "pyval \<Rightarrow> bool" where
  "py_truthy PNone = False"
| "py_truthy (PBool b) = b"
| "py_truthy (PInt i) = (i \<noteq> 0)"
| "py_truthy (PStr s) = (s \<noteq> [])"
| "py_truthy (PList xs) = (xs \<noteq> [])"
| "py_truthy (PDict kvs) = (kvs \<noteq> [])"

fun type_name :: "pyval \<Rightarrow> string" where
  "type_name PNone = ''NoneType''"
| "type_name (PBool b) = ''bool''"
| "type_name (PInt i) = ''int''"
| "type_name (PStr s) = ''str''"
| "type_name (PList xs) = ''list''"
| "type_name (PDict kvs) = ''dict''"

text \<open>Decimal text of a number, as \<open>str(n)\<close> gives it.\<close>

fun str_nat :: "nat \<Rightarrow> string" where
  "str_nat n =
     (if n < 10 then [char_of (48 + n)]
      else str_nat (n div 10) @ [char_of (48 + n mod 10)])"

definition str_int :: "int \<Rightarrow> string" where
  "str_int i = (if i < 0 then CHR ''-'' # str_nat (nat (- i)) else str_nat (nat i))"

text \<open>
  The items of a sequence handed to \<open>sep.join\<close>: each must be text; the first that
  is not raises \<open>TypeError\<close> naming its position and type.
\<close>

fun join_items :: "nat \<Rightarrow> pyval list \<Rightarrow> py_exception + string list" where
  "join_items i [] = Inr []"
| "join_items i (PStr s # vs) =
     (case join_items (Suc i) vs of Inl e \<Rightarrow> Inl e | Inr ss \<Rightarrow> Inr (s # ss))"
| "join_items i (v # vs) =
     Inl (TypeError (''sequence item '' @ str_nat i @ '': expected str instance, ''
            @ type_name v @ '' found''))"

text \<open>
  \<open>sep.join(v)\<close> for a value of any kind: a list is joined item by item, text
  character by character, a dict by its keys; anything else is not iterable.
\<close>

fun py_join_val :: "string \<Rightarrow> pyval \<Rightarrow> py_exception + string" where
  "py_join_val sep (PList vs) =
     (case join_items 0 vs of Inl e \<Rightarrow> Inl e | Inr ss \<Rightarrow> Inr (py_join sep ss))"
| "py_join_val sep (PStr s) = Inr (py_join sep (map (\<lambda>c. [c]) s))"
| "py_join_val sep (PDict kvs) = Inr (py_join sep (map fst kvs))"
| "py_join_val sep v = Inl (TypeError ''can only join an iterable'')"

text \<open>
  The slice \<open>xs[s:]\<close>: a negative start counts from the end and is clamped at the
  front, a start past the end is clamped at the end.
\<close>

definition py_slice_from :: "int \<Rightarrow> 'a list \<Rightarrow> 'a list" where
  "py_slice_from s xs =
     (let n = int (length xs);
          j = (if s < 0 then max 0 (s + n) else min s n)
      in drop (nat j) xs)"

section \<open>Conversation memory (schema/message.py, schema/memory.py)\<close>

record message =
  role :: string
  content :: string
  name :: "string option"
  tool_calls :: "pyval list option"

definition mk_message :: "string \<Rightarrow> string \<Rightarrow> message" where
  "mk_message r c = \<lparr>role = r, content = c, name = None, tool_calls = None\<rparr>"

definition USER :: string where "USER = ''user''"
definition ASSISTANT :: string where "ASSISTANT = ''assistant''"

record memory =
  messages :: "message list"
  max_messages :: int

definition trim_memory :: "memory \<Rightarrow> memory" where
  "trim_memory m =
     (if int (length (messages m)) > max_messages m
      then m\<lparr>messages := py_slice_from (- max_messages m) (messages m)\<rparr>
      else m)"

definition add_message :: "message \<Rightarrow> memory \<Rightarrow> memory" where
  "add_message msg m = trim_memory (m\<lparr>messages := messages m @ [msg]\<rparr>)"

text \<open>A sequence of appends, oldest first.\<close>

fun add_messages :: "message list \<Rightarrow> memory \<Rightarrow> memory" where
  "add_messages [] m = m"
| "add_messages (x # xs) m = add_messages xs (add_message x m)"

subsection \<open>The bound on the memory\<close>

lemma max_messages_add_message [simp]: "max_messages (add_message msg m) = max_messages m"
  by (simp add: add_message_def trim_memory_def)

lemma max_messages_add_messages [simp]: "max_messages (add_messages xs m) = max_messages m"
  by (induction xs arbitrary: m) simp_all

text \<open>
  With a positive maximum, one append keeps the most recent \<open>max_messages\<close> entries of
  the extended list.
\<close>

lemma add_message_positive:
  assumes "0 < max_messages m"
  shows "messages (add_message msg m) =
         drop (length (messages m) + 1 - nat (max_messages m)) (messages m @ [msg])"
proof (cases "int (length (messages m)) + 1 > max_messages m")
  case True
  have "nat (1 + int (length (messages m)) - max_messages m)
           = Suc (length (messages m)) - nat (max_messages m)"
    using assms True by linarith
  with True assms show ?thesis
    by (simp add: add_message_def trim_memory_def py_slice_from_def Let_def max_def
        del: drop_append)
next
  case False
  then have "Suc (length (messages m)) - nat (max_messages m) = 0"
    using assms by linarith
  with False show ?thesis
    by (simp add: add_message_def trim_memory_def del: drop_append)
qed

lemma add_message_length_positive:
  assumes "0 < max_messages m"
  shows "int (length (messages (add_message msg m))) \<le> max_messages m"
  using assms by (simp add: add_message_positive del: drop_append)

text \<open>
  With a positive maximum, a memory within its bound holds, after any sequence of
  appends, the most recent \<open>max_messages\<close> of all its messages in their order.
\<close>

lemma add_messages_positive:
  assumes "0 < max_messages m" and "int (length (messages m)) \<le> max_messages m"
  shows "messages (add_messages xs m) =
         drop (length (messages m @ xs) - nat (max_messages m)) (messages m @ xs)"
  using assms
proof (induction xs arbitrary: m)
  case Nil
  then show ?case by simp
next
  case (Cons x xs)
  let ?m' = "add_message x m"
  let ?M = "nat (max_messages m)"
  let ?k = "length (messages m) + 1 - ?M"
  have m': "messages ?m' = drop ?k (messages m @ [x])"
    using Cons.prems by (simp add: add_message_positive del: drop_append)
  have len: "int (length (messages ?m')) \<le> max_messages ?m'"
    using Cons.prems add_message_length_positive [of m x] by simp
  have pos: "0 < max_messages ?m'"
    using Cons.prems by simp
  have k: "?k \<le> length (messages m @ [x])" by simp
  have one: "Suc 0 - ?M = 0"
    using Cons.prems by linarith
  have app: "messages ?m' @ xs = drop ?k (messages m @ x # xs)"
    using m' one by simp
  have "messages (add_messages (x # xs) m) =
        drop (length (messages ?m' @ xs) - ?M) (messages ?m' @ xs)"
    using Cons.IH [OF pos len] by simp
  also have "\<dots> = drop (length (messages ?m' @ xs) - ?M + ?k) (messages m @ x # xs)"
    unfolding app by (simp del: drop_append)
  also have "length (messages ?m' @ xs) - ?M + ?k = length (messages m @ x # xs) - ?M"
    unfolding app using Cons.prems by (simp del: drop_append)
  finally show ?case .
qed

lemma add_messages_length_positive:
  assumes "0 < max_messages m" and "int (length (messages m)) \<le> max_messages m"
    and "int (length (messages m @ xs)) > max_messages m"
  shows "int (length (messages (add_messages xs m))) = max_messages m"
  using assms by (simp add: add_messages_positive del: drop_append)

text \<open>
  C5, evaluated on the code. \<open>Memory(max_messages=0)\<close> is accepted by the
  class (the field is a plain \<open>int\<close>), and \<open>messages[-0:]\<close> is the whole list: after
  one append the memory holds one message, above its maximum of zero, and after three
  appends all three.
\<close>

theorem memory_zero_maximum_not_trimmed:
  "messages (add_message (mk_message USER ''a'') \<lparr>messages = [], max_messages = 0\<rparr>)
     = [mk_message USER ''a'']
   \<and> \<not> int (length (messages (add_message (mk_message USER ''a'')
            \<lparr>messages = [], max_messages = 0\<rparr>))) \<le> 0
   \<and> length (messages (add_messages
        [mk_message USER ''a'', mk_message USER ''b'', mk_message USER ''c'']
        \<lparr>messages = [], max_messages = 0\<rparr>)) = 3"
  by (simp add: add_message_def trim_memory_def py_slice_from_def)

section \<open>Tools and the registry (tool/tool\_registry.py)\<close>

record tool_result =
  success :: bool
  output_text :: string
  data :: "(string \<times> pyval) list option"

type_synonym kwargs = "(string \<times> pyval) list"

text \<open>
  A tool is an instance of a subclass of \<open>BaseTool\<close>. Its \<open>execute(**kwargs)\<close> acts
  on the world outside the agent (type \<open>'w\<close>: a file system, a shell, a browser) and
  either returns a \<open>ToolResult\<close> or raises; \<open>get_parameters_schema()\<close> is a method
  of the subclass as well and may raise like any other.
\<close>

record 'w tool =
  tool_name :: string
  tool_description :: string
  tool_execute :: "kwargs \<Rightarrow> 'w \<Rightarrow> (py_exception + tool_result) \<times> 'w"
  get_parameters_schema :: "py_exception + pyval"

text \<open>\<open>ToolRegistry.tools\<close> is a dict: keys are unique and keep their insertion order.\<close>

type_synonym 'w tool_registry = "(string \<times> 'w tool) list"

fun dict_set :: "'k \<Rightarrow> 'v \<Rightarrow> ('k \<times> 'v) list \<Rightarrow> ('k \<times> 'v) list" where
  "dict_set k v [] = [(k, v)]"
| "dict_set k v ((k', v') # kvs) =
     (if k' = k then (k, v) # kvs else (k', v') # dict_set k v kvs)"

definition register :: "'w tool \<Rightarrow> 'w tool_registry \<Rightarrow> 'w tool_registry" where
  "register t reg = dict_set (tool_name t) t reg"

definition get :: "'w tool_registry \<Rightarrow> string \<Rightarrow> 'w tool option" where
  "get reg tname = map_of reg tname"

definition list_tools :: "'w tool_registry \<Rightarrow> string list" where
  "list_tools reg = map fst reg"

definition get_tools_description :: "'w tool_registry \<Rightarrow> string" where
  "get_tools_description reg =
     py_join [CHR 0x0A]
       (map (\<lambda>(k, t). ''- '' @ tool_name t @ '': '' @ tool_description t) reg)"

definition to_param :: "'w tool \<Rightarrow> py_exception + pyval" where
  "to_param t =
     (case get_parameters_schema t of
        Inl e \<Rightarrow> Inl e
      | Inr schema \<Rightarrow>
          Inr (PDict [(''type'', PStr ''function''),
                      (''function'', PDict [(''name'', PStr (tool_name t)),
                                            (''description'', PStr (tool_description t)),
                                            (''parameters'', schema)])]))"

text \<open>The list comprehension of \<open>to_params\<close> stops at the first tool that raises.\<close>

fun to_params :: "'w tool_registry \<Rightarrow> py_exception + pyval list" where
  "to_params [] = Inr []"
| "to_params ((k, t) # reg) =
     (case to_param t of
        Inl e \<Rightarrow> Inl e
      | Inr p \<Rightarrow> (case to_params reg of Inl e \<Rightarrow> Inl e | Inr ps \<Rightarrow> Inr (p # ps)))"

definition failure :: "string \<Rightarrow> tool_result" where
  "failure msg = \<lparr>success = False, output_text = msg, data = None\<rparr>"

text \<open>
  \<open>ToolRegistry.execute(name, **kwargs)\<close>; \<open>kw\<close> are the keywords that
  \<open>**kwargs\<close> collects. The two handlers are \<open>except ToolError\<close> and
  \<open>except Exception\<close>; an exception that neither matches leaves \<open>execute\<close>.
\<close>

definition execute ::
  "'w tool_registry \<Rightarrow> string \<Rightarrow> kwargs \<Rightarrow> 'w \<Rightarrow> (py_exception + tool_result) \<times> 'w" where
  "execute reg tname kw w =
     (case get reg tname of
        None \<Rightarrow>
          (Inr (failure (''Tool '' @ [CHR 0x27] @ tname @ [CHR 0x27]
                  @ '' not found. Available tools: '' @ py_join '', '' (list_tools reg))), w)
      | Some t \<Rightarrow>
          (case tool_execute t kw w of
             (Inr r, w') \<Rightarrow> (Inr r, w')
           | (Inl e, w') \<Rightarrow>
               (if is_ToolError e then (Inr (failure (str_exc e)), w')
                else if is_Exception e then
                  (Inr (failure (''Error executing tool '' @ [CHR 0x27] @ tname
                          @ [CHR 0x27] @ '': '' @ str_exc e)), w')
                else (Inl e, w'))))"

text \<open>
  Tools for concrete runs, over a world that only counts the calls that reached a
  tool: one that succeeds, one that raises \<open>ToolError\<close>, and one whose task is
  cancelled while it runs.
\<close>

definition counting_tool :: "nat tool" where
  "counting_tool =
     \<lparr>tool_name = ''counter'', tool_description = ''Counts its calls.'',
      tool_execute = (\<lambda>kw w. (Inr \<lparr>success = True, output_text = ''counted'', data = None\<rparr>, Suc w)),
      get_parameters_schema = Inr (PDict [])\<rparr>"

definition raising_tool :: "nat tool" where
  "raising_tool =
     \<lparr>tool_name = ''broken'', tool_description = ''Always raises.'',
      tool_execute = (\<lambda>kw w. (Inl (ToolError ''bad input''), w)),
      get_parameters_schema = Inr (PDict [])\<rparr>"

definition cancelled_tool :: "nat tool" where
  "cancelled_tool =
     \<lparr>tool_name = ''slow'', tool_description = ''Is cancelled while waiting.'',
      tool_execute = (\<lambda>kw w. (Inl (CancelledError []), Suc w)),
      get_parameters_schema = Inr (PDict [])\<rparr>"

definition example_registry :: "nat tool_registry" where
  "example_registry =
     register cancelled_tool (register raising_tool (register counting_tool []))"

subsection \<open>What the registry absorbs\<close>

lemma list_tools_registered: "tname \<in> set (list_tools reg) \<longleftrightarrow> get reg tname \<noteq> None"
  by (simp add: list_tools_def get_def map_of_eq_None_iff)

lemma execute_present:
  assumes "get reg tname = Some t"
  shows "execute reg tname kw w =
     (case tool_execute t kw w of
        (Inr r, w') \<Rightarrow> (Inr r, w')
      | (Inl e, w') \<Rightarrow>
          (if is_ToolError e then (Inr (failure (str_exc e)), w')
           else if is_Exception e then
             (Inr (failure (''Error executing tool '' @ [CHR 0x27] @ tname @ [CHR 0x27]
                     @ '': '' @ str_exc e)), w')
           else (Inl e, w')))"
  using assms by (simp add: execute_def split: prod.splits sum.splits)

lemma ToolError_is_Exception: "is_ToolError e \<Longrightarrow> is_Exception e"
  by (cases e) simp_all

text \<open>
  C4 as stated fails: a tool whose task is cancelled raises
  \<open>asyncio.CancelledError\<close>, which is no \<open>Exception\<close>; neither handler of
  \<open>ToolRegistry.execute\<close> catches it, and it leaves \<open>execute\<close>.
\<close>

theorem registry_execute_lets_cancellation_through:
  "execute example_registry ''slow'' [] (0::nat) = (Inl (CancelledError []), 1)"
  by (simp add: execute_def get_def example_registry_def register_def
        counting_tool_def raising_tool_def cancelled_tool_def)

text \<open>
  C4, amended. For a name that is not registered \<open>ToolRegistry.execute\<close> returns a
  failure whose output ends with the registered names, in registration order, joined
  by commas, and the world is untouched. When the named tool's \<open>execute\<close> raises an
  exception derived from \<open>Exception\<close>, the result is a failure whose output ends
  with the exception's message. When the tool returns a result, that result is handed
  on as it is, together with the tool's effect on the world. So \<open>execute\<close> returns a
  \<open>ToolResult\<close> unless the tool raises an exception that does not derive from
  \<open>Exception\<close>; such an exception leaves \<open>execute\<close> as it is.
\<close>

theorem registry_execute_absorbs_exceptions:
  fixes reg :: "'w tool_registry"
  shows "((\<forall>t e w'. get reg tname = Some t \<and> tool_execute t kw w = (Inl e, w')
              \<longrightarrow> is_Exception e)
          \<longrightarrow> (\<exists>r. fst (execute reg tname kw w) = Inr r))
    \<and> (get reg tname = None \<longrightarrow>
         execute reg tname kw w =
           (Inr \<lparr>success = False,
                 output_text = ''Tool '' @ [CHR 0x27] @ tname @ [CHR 0x27]
                   @ '' not found. Available tools: '' @ py_join '', '' (list_tools reg),
                 data = None\<rparr>, w)
         \<and> (\<forall>n. n \<in> set (list_tools reg) \<longleftrightarrow> get reg n \<noteq> None))
    \<and> (\<forall>t e w'. get reg tname = Some t \<and> tool_execute t kw w = (Inl e, w')
            \<and> is_Exception e \<longrightarrow>
         (\<exists>r pre. execute reg tname kw w = (Inr r, w') \<and> \<not> success r
                  \<and> output_text r = pre @ str_exc e))
    \<and> (\<forall>t e w'. get reg tname = Some t \<and> tool_execute t kw w = (Inl e, w')
            \<and> \<not> is_Exception e \<longrightarrow>
         execute reg tname kw w = (Inl e, w'))
    \<and> (\<forall>t r w'. get reg tname = Some t \<and> tool_execute t kw w = (Inr r, w') \<longrightarrow>
         execute reg tname kw w = (Inr r, w'))"
proof (intro conjI allI impI)
  assume only: "\<forall>t e w'. get reg tname = Some t \<and> tool_execute t kw w = (Inl e, w')
                  \<longrightarrow> is_Exception e"
  show "\<exists>r. fst (execute reg tname kw w) = Inr r"
  proof (cases "get reg tname")
    case None
    then show ?thesis by (simp add: execute_def)
  next
    case (Some t)
    obtain x w' where run: "tool_execute t kw w = (x, w')"
      by (metis surj_pair)
    show ?thesis
    proof (cases x)
      case (Inl e)
      with only Some run have "is_Exception e" by blast
      with Some run Inl show ?thesis by (simp add: execute_present)
    next
      case (Inr r)
      with Some run show ?thesis by (simp add: execute_present)
    qed
  qed
next
  assume "get reg tname = None"
  then show "execute reg tname kw w =
      (Inr \<lparr>success = False,
            output_text = ''Tool '' @ [CHR 0x27] @ tname @ [CHR 0x27]
              @ '' not found. Available tools: '' @ py_join '', '' (list_tools reg),
            data = None\<rparr>, w)"
    by (simp add: execute_def failure_def)
next
  fix n show "n \<in> set (list_tools reg) \<longleftrightarrow> get reg n \<noteq> None"
    by (rule list_tools_registered)
next
  fix t e w'
  assume h: "get reg tname = Some t \<and> tool_execute t kw w = (Inl e, w') \<and> is_Exception e"
  show "\<exists>r pre. execute reg tname kw w = (Inr r, w') \<and> \<not> success r
            \<and> output_text r = pre @ str_exc e"
  proof (cases "is_ToolError e")
    case True
    with h have "execute reg tname kw w = (Inr (failure (str_exc e)), w')
        \<and> \<not> success (failure (str_exc e))
        \<and> output_text (failure (str_exc e)) = [] @ str_exc e"
      by (simp add: execute_present failure_def)
    then show ?thesis by blast
  next
    case False
    let ?pre = "''Error executing tool '' @ [CHR 0x27] @ tname @ [CHR 0x27] @ '': ''"
    from False h have "execute reg tname kw w = (Inr (failure (?pre @ str_exc e)), w')
        \<and> \<not> success (failure (?pre @ str_exc e))
        \<and> output_text (failure (?pre @ str_exc e)) = ?pre @ str_exc e"
      by (simp add: execute_present failure_def)
    then show ?thesis by blast
  qed
next
  fix t e w'
  assume h: "get reg tname = Some t \<and> tool_execute t kw w = (Inl e, w') \<and> \<not> is_Exception e"
  then have "\<not> is_ToolError e"
    using ToolError_is_Exception by blast
  with h show "execute reg tname kw w = (Inl e, w')"
    by (simp add: execute_present)
next
  fix t r w'
  assume "get reg tname = Some t \<and> tool_execute t kw w = (Inr r, w')"
  then show "execute reg tname kw w = (Inr r, w')"
    by (simp add: execute_present)
qed

theorem registry_execute_absorbs_exceptions_witness:
  "execute example_registry ''missing'' [] (0::nat) =
      (Inr \<lparr>success = False,
            output_text = ''Tool '' @ [CHR 0x27] @ ''missing'' @ [CHR 0x27]
              @ '' not found. Available tools: counter, broken, slow'',
            data = None\<rparr>, 0)
   \<and> (\<exists>r pre. execute example_registry ''broken'' [] (0::nat) = (Inr r, 0)
          \<and> \<not> success r \<and> output_text r = pre @ ''bad input'')
   \<and> (\<exists>r. fst (execute example_registry ''broken'' [] (0::nat)) = Inr r)
   \<and> execute example_registry ''slow'' [] (0::nat) = (Inl (CancelledError []), 1)
   \<and> execute example_registry ''counter'' [] (0::nat) =
      (Inr \<lparr>success = True, output_text = ''counted'', data = None\<rparr>, 1)"
proof -
  note defs = example_registry_def register_def get_def counting_tool_def raising_tool_def
    cancelled_tool_def
  have absent: "get example_registry ''missing'' = None"
    by (simp add: defs)
  have names: "list_tools example_registry = [''counter'', ''broken'', ''slow'']"
    by (simp add: defs list_tools_def)
  have broken: "get example_registry ''broken'' = Some raising_tool
      \<and> tool_execute raising_tool [] (0::nat) = (Inl (ToolError ''bad input''), 0)
      \<and> is_Exception (ToolError ''bad input'')"
    by (simp add: defs)
  have slow: "get example_registry ''slow'' = Some cancelled_tool
      \<and> tool_execute cancelled_tool [] (0::nat) = (Inl (CancelledError []), 1)
      \<and> \<not> is_Exception (CancelledError [])"
    by (simp add: defs)
  have counter: "get example_registry ''counter'' = Some counting_tool
      \<and> tool_execute counting_tool [] (0::nat)
          = (Inr \<lparr>success = True, output_text = ''counted'', data = None\<rparr>, 1)"
    by (simp add: defs)
  have only: "\<forall>t e w'. get example_registry ''broken'' = Some t
                \<and> tool_execute t [] (0::nat) = (Inl e, w') \<longrightarrow> is_Exception e"
    using broken by auto
  have 1: "execute example_registry ''missing'' [] (0::nat) =
      (Inr \<lparr>success = False,
            output_text = ''Tool '' @ [CHR 0x27] @ ''missing'' @ [CHR 0x27]
              @ '' not found. Available tools: counter, broken, slow'',
            data = None\<rparr>, 0)"
    using registry_execute_absorbs_exceptions [of example_registry "''missing''" "[]" 0]
      absent names
    by simp
  have 2: "\<exists>r pre. execute example_registry ''broken'' [] (0::nat) = (Inr r, 0)
          \<and> \<not> success r \<and> output_text r = pre @ ''bad input''"
    using registry_execute_absorbs_exceptions [of example_registry "''broken''" "[]" 0] broken
    by (metis str_exc.simps(1))
  have 3: "\<exists>r. fst (execute example_registry ''broken'' [] (0::nat)) = Inr r"
    using registry_execute_absorbs_exceptions [of example_registry "''broken''" "[]" 0] only
    by blast
  have 4: "execute example_registry ''slow'' [] (0::nat) = (Inl (CancelledError []), 1)"
    using registry_execute_absorbs_exceptions [of example_registry "''slow''" "[]" 0] slow
    by blast
  have 5: "execute example_registry ''counter'' [] (0::nat) =
      (Inr \<lparr>success = True, output_text = ''counted'', data = None\<rparr>, 1)"
    using registry_execute_absorbs_exceptions [of example_registry "''counter''" "[]" 0] counter
    by blast
  from 1 2 3 4 5 show ?thesis by blast
qed

section \<open>The agent (agent/base\_agent.py, agent/reactive\_agent.py)\<close>

text \<open>
  \<open>AgentState\<close> is a \<open>str\<close> enumeration; a member compares equal to its value.
\<close>

definition IDLE :: string where "IDLE = ''idle''"
definition RUNNING :: string where "RUNNING = ''running''"
definition PAUSED :: string where "PAUSED = ''paused''"
definition FINISHED :: string where "FINISHED = ''finished''"
definition ERROR :: string where "ERROR = ''error''"

text \<open>
  The fields of \<open>BaseAgent\<close>. The LLM capability is its \<open>ask(messages, system_prompt)\<close>,
  which acts on the world and returns text or raises. The class does not validate
  assignments, so \<open>state\<close> holds whatever text is assigned to it.
\<close>

record 'w agent =
  agent_name :: string
  agent_description :: string
  system_prompt :: string
  llm_ask :: "message list \<Rightarrow> string \<Rightarrow> 'w \<Rightarrow> (py_exception + string) \<times> 'w"
  agent_memory :: memory
  agent_tools :: "'w tool_registry"
  state :: string
  max_iterations :: int
  current_iteration :: int

text \<open>
  What a method of the agent leaves behind: the text it returns or the exception it
  raises, the agent as mutated so far, and the world.
\<close>

type_synonym 'w outcome = "(py_exception + string) \<times> 'w agent \<times> 'w"

definition remember :: "string \<Rightarrow> string \<Rightarrow> 'w agent \<Rightarrow> 'w agent" where
  "remember r c a = a\<lparr>agent_memory := add_message (mk_message r c) (agent_memory a)\<rparr>"

definition has_status_keyword :: "string \<Rightarrow> bool" where
  "has_status_keyword input_text =
     list_ex (\<lambda>keyword. py_in keyword (py_lower input_text))
       [''system status'', ''system info'', ''system information'']"

definition not_available :: "string \<Rightarrow> string" where
  "not_available tool = tool @ '' is not available. Please make sure it'' @ [CHR 0x27]
     @ ''s properly registered.''"

subsection \<open>The triggers of \<open>ReactiveAgent.next_step\<close>, in source order\<close>

text \<open>
  System status. This block returns only when the tool is registered and succeeds;
  otherwise control goes on to the later triggers (\<open>None\<close>), with whatever the tool
  did to the world.
\<close>

definition system_status_rule ::
  "'w agent \<Rightarrow> 'w \<Rightarrow> (py_exception + string) option \<times> 'w agent \<times> 'w" where
  "system_status_rule a w =
     (case get (agent_tools a) ''system_info'' of
        None \<Rightarrow> (None, a, w)
      | Some system_tool \<Rightarrow>
          (case tool_execute system_tool [] w of
             (Inl e, w') \<Rightarrow> (Some (Inl e), a, w')
           | (Inr tool_result, w') \<Rightarrow>
               if success tool_result then
                 (let tool_response = ''Here'' @ [CHR 0x27] @ ''s the current system status:''
                        @ [CHR 0x0A, CHR 0x0A] @ output_text tool_result
                  in (Some (Inr tool_response), remember ASSISTANT tool_response a, w'))
               else (None, a, w')))"

definition search_rule :: "'w agent \<Rightarrow> string \<Rightarrow> 'w \<Rightarrow> 'w outcome" where
  "search_rule a input_text w =
     (case get (agent_tools a) ''browser'' of
        None \<Rightarrow> (Inr (not_available ''Browser tool''), a, w)
      | Some browser_tool \<Rightarrow>
          (let search_term = py_strip (drop 7 input_text) in
           case tool_execute browser_tool
                  [(''action'', PStr ''search''), (''query'', PStr search_term)] w of
             (Inl e, w') \<Rightarrow> (Inl e, a, w')
           | (Inr tool_result, w') \<Rightarrow>
               if success tool_result then
                 (let tool_response = ''I'' @ [CHR 0x27] @ ''ve searched for '' @ [CHR 0x27]
                        @ search_term @ [CHR 0x27] @ '' in the browser.''
                  in (Inr tool_response, remember ASSISTANT tool_response a, w'))
               else (Inr (''Failed to search: '' @ output_text tool_result), a, w')))"

definition navigate_rule :: "'w agent \<Rightarrow> string \<Rightarrow> 'w \<Rightarrow> 'w outcome" where
  "navigate_rule a input_text w =
     (case get (agent_tools a) ''browser'' of
        None \<Rightarrow> (Inr (not_available ''Browser tool''), a, w)
      | Some browser_tool \<Rightarrow>
          (let url = (if py_startswith (py_lower input_text) ''navigate to ''
                      then py_strip (drop 11 input_text)
                      else py_strip (drop 6 input_text)) in
           case tool_execute browser_tool
                  [(''action'', PStr ''navigate''), (''url'', PStr url)] w of
             (Inl e, w') \<Rightarrow> (Inl e, a, w')
           | (Inr tool_result, w') \<Rightarrow>
               if success tool_result then
                 (let tool_response = ''I'' @ [CHR 0x27] @ ''ve opened '' @ url
                        @ '' in the browser.''
                  in (Inr tool_response, remember ASSISTANT tool_response a, w'))
               else (Inr (''Failed to navigate: '' @ output_text tool_result), a, w')))"

definition open_url_rule :: "'w agent \<Rightarrow> string \<Rightarrow> 'w \<Rightarrow> 'w outcome" where
  "open_url_rule a input_text w =
     (case get (agent_tools a) ''browser_use'' of
        None \<Rightarrow> (Inr (not_available ''Browser_use tool''), a, w)
      | Some browser_tool \<Rightarrow>
          (case py_split_n '' '' 1 input_text of
             p0 # p1 # ps \<Rightarrow>
               (let url = py_strip p1 in
                case tool_execute browser_tool
                       [(''action'', PStr ''navigate''), (''url'', PStr url)] w of
                  (Inl e, w') \<Rightarrow> (Inl e, a, w')
                | (Inr tool_result, w') \<Rightarrow>
                    if success tool_result then
                      (let tool_response = ''Navigated to '' @ url @ '' in the browser.''
                       in (Inr tool_response, remember ASSISTANT tool_response a, w'))
                    else (Inr (''Failed to open URL: '' @ output_text tool_result), a, w'))
           | parts \<Rightarrow> (Inr ''Please specify a URL to open.'', a, w)))"

definition is_terminal_command :: "string \<Rightarrow> bool" where
  "is_terminal_command input_text =
     (py_lower input_text \<in> set [''ls'', ''pwd'', ''whoami'', ''date'', ''hostname'']
      \<or> list_ex (py_startswith (py_lower input_text))
           [''echo '', ''cat '', ''grep '', ''find '', ''ps '', ''mkdir '', ''touch ''])"

definition terminal_rule :: "'w agent \<Rightarrow> string \<Rightarrow> 'w \<Rightarrow> 'w outcome" where
  "terminal_rule a input_text w =
     (case get (agent_tools a) ''terminal'' of
        None \<Rightarrow> (Inr (not_available ''Terminal tool''), a, w)
      | Some terminal_tool \<Rightarrow>
          (case tool_execute terminal_tool [(''command'', PStr input_text)] w of
             (Inl e, w') \<Rightarrow> (Inl e, a, w')
           | (Inr tool_result, w') \<Rightarrow>
               if success tool_result then
                 (let tool_response =
                        (if output_text tool_result = []
                         then ''(Command executed successfully with no output)''
                         else output_text tool_result)
                  in (Inr tool_response, remember ASSISTANT tool_response a, w'))
               else (Inr (''Failed to execute command: '' @ output_text tool_result), a, w')))"

definition is_create_file :: "string \<Rightarrow> bool" where
  "is_create_file input_text =
     list_ex (py_startswith (py_lower input_text))
       [''create file'', ''make a file'', ''make file'']"

text \<open>
  The file tool is called with the keywords \<open>action\<close>, \<open>name\<close> and \<open>content\<close>, the
  file name taken from the lowered input.
\<close>

definition create_file_rule :: "'w agent \<Rightarrow> string \<Rightarrow> 'w \<Rightarrow> 'w outcome" where
  "create_file_rule a input_text w =
     (case get (agent_tools a) ''file_operations'' of
        None \<Rightarrow> (Inr (not_available ''File operations tool''), a, w)
      | Some file_tool \<Rightarrow>
          (case py_split_n '' file '' 1 (py_lower input_text) of
             p0 # p1 # ps \<Rightarrow>
               (let filename = py_strip p1 in
                case tool_execute file_tool
                       [(''action'', PStr ''create''), (''name'', PStr filename),
                        (''content'', PStr [])] w of
                  (Inl e, w') \<Rightarrow> (Inl e, a, w')
                | (Inr tool_result, w') \<Rightarrow>
                    if success tool_result then
                      (let tool_response = ''Created file: '' @ filename
                       in (Inr tool_response, remember ASSISTANT tool_response a, w'))
                    else (Inr (''Failed to create file: '' @ output_text tool_result), a, w'))
           | parts \<Rightarrow> (Inr ''Please specify a filename.'', a, w)))"

definition is_list_files :: "string \<Rightarrow> bool" where
  "is_list_files input_text =
     (list_ex (py_startswith (py_lower input_text)) [''list file'', ''list directory'']
      \<or> py_lower input_text = ''ls'')"

definition list_path :: "string \<Rightarrow> string" where
  "list_path input_text =
     (if py_in '' '' input_text \<and> py_lower input_text \<noteq> ''ls'' then
        (case py_split_n '' '' 2 input_text of
           p0 # p1 # p2 # ps \<Rightarrow> py_strip p2
         | parts \<Rightarrow> ''.'')
      else ''.'')"

text \<open>\<open>tool_result.data.get("files", [])\<close>; \<open>data\<close> may be \<open>None\<close>.\<close>

definition data_get_files :: "tool_result \<Rightarrow> py_exception + pyval" where
  "data_get_files tool_result =
     (case data tool_result of
        None \<Rightarrow> Inl (AttributeError
                  ([CHR 0x27] @ ''NoneType'' @ [CHR 0x27] @ '' object has no attribute ''
                   @ [CHR 0x27] @ ''get'' @ [CHR 0x27]))
      | Some d \<Rightarrow> (case map_of d ''files'' of None \<Rightarrow> Inr (PList []) | Some v \<Rightarrow> Inr v))"

definition list_files_rule :: "'w agent \<Rightarrow> string \<Rightarrow> 'w \<Rightarrow> 'w outcome" where
  "list_files_rule a input_text w =
     (case get (agent_tools a) ''file_operations'' of
        None \<Rightarrow> (Inr (not_available ''File operations tool''), a, w)
      | Some file_tool \<Rightarrow>
          (let path = list_path input_text in
           case tool_execute file_tool
                  [(''action'', PStr ''list''), (''path'', PStr path)] w of
             (Inl e, w') \<Rightarrow> (Inl e, a, w')
           | (Inr tool_result, w') \<Rightarrow>
               if success tool_result then
                 (case data_get_files tool_result of
                    Inl e \<Rightarrow> (Inl e, a, w')
                  | Inr files \<Rightarrow>
                      if py_truthy files then
                        (case py_join_val [CHR 0x0A] files of
                           Inl e \<Rightarrow> (Inl e, a, w')
                         | Inr file_list \<Rightarrow>
                             (let tool_response = ''Files in '' @ path @ '':''
                                    @ [CHR 0x0A, CHR 0x0A] @ file_list
                              in (Inr tool_response, remember ASSISTANT tool_response a, w')))
                      else
                        (let tool_response = ''No files found in '' @ path
                         in (Inr tool_response, remember ASSISTANT tool_response a, w')))
               else (Inr (''Failed to list files: '' @ output_text tool_result), a, w')))"

definition llm_rule :: "'w agent \<Rightarrow> 'w \<Rightarrow> 'w outcome" where
  "llm_rule a w =
     (let enhanced_system_prompt =
            system_prompt a @ [CHR 0x0A, CHR 0x0A]
              @ ''You have access to the following tools:'' @ [CHR 0x0A]
              @ get_tools_description (agent_tools a) @ [CHR 0x0A, CHR 0x0A]
              @ ''To use a tool, respond with the tool name and parameters in a structured format.''
      in case llm_ask a (messages (agent_memory a)) enhanced_system_prompt w of
           (Inl e, w') \<Rightarrow> (Inl e, a, w')
         | (Inr response, w') \<Rightarrow> (Inr response, remember ASSISTANT response a, w'))"

text \<open>The body of the \<open>try\<close> in \<open>next_step\<close>: the first trigger that matches decides.\<close>

definition try_block :: "'w agent \<Rightarrow> string \<Rightarrow> 'w \<Rightarrow> 'w outcome" where
  "try_block a input_text w =
     (case (if has_status_keyword input_text then system_status_rule a w else (None, a, w)) of
        (Some r, a1, w1) \<Rightarrow> (r, a1, w1)
      | (None, a1, w1) \<Rightarrow>
          if py_startswith (py_lower input_text) ''search '' then search_rule a1 input_text w1
          else if py_startswith (py_lower input_text) ''navigate to ''
                  \<or> py_startswith (py_lower input_text) ''go to ''
            then navigate_rule a1 input_text w1
          else if py_startswith (py_lower input_text) ''browser.open_url''
            then open_url_rule a1 input_text w1
          else if is_terminal_command input_text then terminal_rule a1 input_text w1
          else if is_create_file input_text then create_file_rule a1 input_text w1
          else if is_list_files input_text then list_files_rule a1 input_text w1
          else llm_rule a1 w1)"

text \<open>
  \<open>ReactiveAgent.next_step\<close>. The append of the user message and \<open>to_params()\<close>
  stand before the \<open>try\<close>: what they raise leaves \<open>next_step\<close>. What the \<open>try\<close>
  body raises is turned into text by \<open>except Exception\<close>, with the state set to
  \<open>"ERROR"\<close>.
\<close>

definition next_step :: "'w agent \<Rightarrow> string \<Rightarrow> 'w \<Rightarrow> 'w outcome" where
  "next_step a input_text w =
     (let a0 = remember USER input_text a in
      case to_params (agent_tools a0) of
        Inl e \<Rightarrow> (Inl e, a0, w)
      | Inr tools_params \<Rightarrow>
          (case try_block a0 input_text w of
             (Inr r, a1, w1) \<Rightarrow> (Inr r, a1, w1)
           | (Inl e, a1, w1) \<Rightarrow>
               if is_Exception e
               then (Inr (''Error: '' @ str_exc e), a1\<lparr>state := ''ERROR''\<rparr>, w1)
               else (Inl e, a1, w1)))"

subsection \<open>\<open>BaseAgent.run\<close>\<close>

text \<open>
  The names bound at module level in base\_agent.py: its imports and the class it
  defines. A name used in the module and found neither here nor among the builtins
  raises \<open>NameError\<close> where it is evaluated.
\<close>

definition base_agent_globals :: "string list" where
  "base_agent_globals =
     [''ABC'', ''abstractmethod'', ''Dict'', ''List'', ''Optional'', ''Any'',
      ''BaseModel'', ''Field'', ''LLM'', ''Memory'', ''AgentState'', ''ToolRegistry'',
      ''BaseAgent'']"

text \<open>
  The \<open>except Exception as e\<close> clause of \<open>run\<close>: an exception that is no
  \<open>Exception\<close> passes it; for the others its first statement evaluates
  \<open>logger.error\<close>, then the state is set and the text returned.
\<close>

definition run_except :: "py_exception \<Rightarrow> 'w agent \<Rightarrow> 'w \<Rightarrow> 'w outcome" where
  "run_except e a w =
     (if is_Exception e then
        (if ''logger'' \<in> set base_agent_globals
         then (Inr (''Error: '' @ str_exc e), a\<lparr>state := ''ERROR''\<rparr>, w)
         else (Inl (NameError (''name '' @ [CHR 0x27] @ ''logger'' @ [CHR 0x27]
                      @ '' is not defined'')), a, w))
      else (Inl e, a, w))"

text \<open>
  \<open>run\<close> is inherited by every agent class; \<open>step\<close> is the \<open>next_step\<close> of the
  class at hand. Inputs with a status keyword return what \<open>next_step\<close> returns at
  once; the others set the state to \<open>"IDLE"\<close> first.
\<close>

definition run ::
  "('w agent \<Rightarrow> string \<Rightarrow> 'w \<Rightarrow> 'w outcome) \<Rightarrow> 'w agent \<Rightarrow> string \<Rightarrow> 'w \<Rightarrow> 'w outcome" where
  "run step a input_text w =
     (let a1 = a\<lparr>state := ''RUNNING''\<rparr> in
      if has_status_keyword input_text then
        (case step a1 input_text w of
           (Inr r, a2, w2) \<Rightarrow> (Inr r, a2, w2)
         | (Inl e, a2, w2) \<Rightarrow> run_except e a2 w2)
      else
        (case step a1 input_text w of
           (Inr response, a2, w2) \<Rightarrow> (Inr response, a2\<lparr>state := ''IDLE''\<rparr>, w2)
         | (Inl e, a2, w2) \<Rightarrow> run_except e a2 w2))"

subsection \<open>Concrete agents\<close>

text \<open>
  The mock LLM of the test suite (tests/mocks/mock\_llm.py): a canned answer for the
  last user message, or an echo of it.
\<close>

definition mock_responses :: "(string \<times> string) list" where
  "mock_responses =
     [(''Say '' @ [CHR 0x27] @ ''Test successful'' @ [CHR 0x27], ''Test successful''),
      (''What'' @ [CHR 0x27] @ ''s the current system status?'',
       ''System Information:'' @ [CHR 0x0A, CHR 0x0A] @ ''CPU: Mock CPU'' @ [CHR 0x0A]
         @ ''MEMORY: Mock Memory'' @ [CHR 0x0A] @ ''DISK: Mock Disk'' @ [CHR 0x0A]
         @ ''PLATFORM: Mock Platform''),
      (''Create a file called test_notes.txt with the content '' @ [CHR 0x27]
         @ ''This is a test note'' @ [CHR 0x27],
       ''I'' @ [CHR 0x27] @ ''ve created the file test_notes.txt with the content ''
         @ [CHR 0x27] @ ''This is a test note'' @ [CHR 0x27] @ ''.''),
      (''Read the content of test_notes.txt'',
       ''The content of test_notes.txt is: This is a test note''),
      (''Delete the test_notes.txt file'',
       ''I'' @ [CHR 0x27] @ ''ve deleted the file test_notes.txt.'')]"

definition mock_llm_ask ::
  "message list \<Rightarrow> string \<Rightarrow> 'w \<Rightarrow> (py_exception + string) \<times> 'w" where
  "mock_llm_ask msgs sp w =
     (let user_messages = filter (\<lambda>m. role m = ''user'') msgs in
      if user_messages = [] then (Inr ''No user message found.'', w)
      else (let last_user_message = content (last user_messages) in
            (Inr (case map_of mock_responses last_user_message of
                    Some r \<Rightarrow> r
                  | None \<Rightarrow> ''Mock response to: '' @ last_user_message), w)))"

text \<open>An LLM capability whose \<open>ask\<close> raises.\<close>

definition raising_llm_ask ::
  "message list \<Rightarrow> string \<Rightarrow> 'w \<Rightarrow> (py_exception + string) \<times> 'w" where
  "raising_llm_ask msgs sp w = (Inl (OtherException ''connection refused''), w)"

text \<open>The agent that main.py builds, over a given registry and LLM capability.\<close>

definition uranus_agent ::
  "(message list \<Rightarrow> string \<Rightarrow> 'w \<Rightarrow> (py_exception + string) \<times> 'w)
     \<Rightarrow> 'w tool_registry \<Rightarrow> 'w agent" where
  "uranus_agent ask reg =
     \<lparr>agent_name = ''Uranus'',
      agent_description = ''A helpful assistant that can perform various tasks.'',
      system_prompt = ''You are Uranus, a helpful AI assistant that can perform various tasks including providing system information, file operations, web browsing, executing Python code, and more.'',
      llm_ask = ask,
      agent_memory = \<lparr>messages = [], max_messages = 100\<rparr>,
      agent_tools = reg,
      state = IDLE,
      max_iterations = 10,
      current_iteration = 0\<rparr>"

text \<open>A tool whose \<open>get_parameters_schema\<close> raises.\<close>

definition schema_raising_tool :: "nat tool" where
  "schema_raising_tool =
     counting_tool\<lparr>get_parameters_schema := Inl (OtherException ''schema unavailable'')\<rparr>"

text \<open>An agent class whose \<open>next_step\<close> raises at once.\<close>

definition raising_step :: "'w agent \<Rightarrow> string \<Rightarrow> 'w \<Rightarrow> 'w outcome" where
  "raising_step a input_text w = (Inl (OtherException ''boom''), a, w)"

subsection \<open>What \<open>run\<close> does with failures and with the state\<close>

text \<open>
  Whatever \<open>Exception\<close> the \<open>try\<close> body of \<open>ReactiveAgent.next_step\<close> raises is
  turned into text there; besides the two statements before the \<open>try\<close>, only an
  exception that is no \<open>Exception\<close> can make it raise.
\<close>

lemma next_step_returns_when_schemas_do:
  assumes "to_params (agent_tools a) = Inr ps"
  shows "(\<exists>r. fst (next_step a input_text w) = Inr r)
       \<or> (\<exists>e. fst (next_step a input_text w) = Inl e \<and> \<not> is_Exception e)"
proof -
  have "agent_tools (remember USER input_text a) = agent_tools a"
    by (simp add: remember_def)
  with assms show ?thesis
    by (cases "try_block (remember USER input_text a) input_text w")
       (auto simp: next_step_def Let_def split: sum.splits)
qed

lemma run_status_keyword_returns_early:
  assumes "has_status_keyword input_text"
    and "step (a\<lparr>state := ''RUNNING''\<rparr>) input_text w = (Inr r, a2, w2)"
  shows "run step a input_text w = (Inr r, a2, w2)"
  using assms by (simp add: run_def)

lemma run_raises_when_step_raises:
  assumes "step (a\<lparr>state := ''RUNNING''\<rparr>) input_text w = (Inl e, a2, w2)"
    and "is_Exception e"
  shows "run step a input_text w =
     (Inl (NameError (''name '' @ [CHR 0x27] @ ''logger'' @ [CHR 0x27] @ '' is not defined'')),
      a2, w2)"
  using assms by (simp add: run_def run_except_def base_agent_globals_def Let_def)

text \<open>
  C2, evaluated on the code. base\_agent.py uses \<open>logger\<close> in the handler of
  \<open>run\<close> and never binds it, so the handler itself raises \<open>NameError\<close>, which
  leaves \<open>run\<close>: no \<open>"Error: ..."\<close> text is returned and the state stays
  \<open>"RUNNING"\<close>. Shown for an agent class whose \<open>next_step\<close> raises, and for
  \<open>ReactiveAgent\<close> with a registered tool whose schema method raises.
\<close>

theorem run_propagates_NameError:
  "fst (run raising_step (uranus_agent mock_llm_ask []) ''hello'' (0::nat))
     = Inl (NameError (''name '' @ [CHR 0x27] @ ''logger'' @ [CHR 0x27] @ '' is not defined''))
   \<and> state (fst (snd (run raising_step (uranus_agent mock_llm_ask []) ''hello'' (0::nat))))
     = ''RUNNING''
   \<and> fst (run next_step (uranus_agent mock_llm_ask (register schema_raising_tool []))
            ''hello'' (0::nat))
     = Inl (NameError (''name '' @ [CHR 0x27] @ ''logger'' @ [CHR 0x27] @ '' is not defined''))
   \<and> state (fst (snd (run next_step
            (uranus_agent mock_llm_ask (register schema_raising_tool [])) ''hello'' (0::nat))))
     = ''RUNNING''"
  by code_simp

text \<open>
  C8, evaluated on the code. For an input with a status keyword \<open>run\<close> returns what
  \<open>next_step\<close> returns without touching the state again: the call succeeds and the
  state is still \<open>"RUNNING"\<close>. For another input whose processing fails inside
  \<open>next_step\<close> (here the LLM capability raises), \<open>next_step\<close> sets \<open>"ERROR"\<close>
  and returns the error text, and \<open>run\<close> then sets \<open>"IDLE"\<close>. The values assigned
  are the upper-case texts, none of which equals a member of \<open>AgentState\<close>.
\<close>

theorem run_leaves_state_running:
  "fst (run next_step (uranus_agent mock_llm_ask []) ''system status'' (0::nat))
     = Inr ''Mock response to: system status''
   \<and> state (fst (snd (run next_step (uranus_agent mock_llm_ask []) ''system status'' (0::nat))))
     = ''RUNNING''
   \<and> fst (run next_step (uranus_agent raising_llm_ask []) ''hello'' (0::nat))
     = Inr ''Error: connection refused''
   \<and> state (fst (snd (run next_step (uranus_agent raising_llm_ask []) ''hello'' (0::nat))))
     = ''IDLE''
   \<and> ''RUNNING'' \<noteq> RUNNING \<and> ''IDLE'' \<noteq> IDLE"
  by code_simp

section \<open>The file tool (tool/file\_operations.py)\<close>

subsection \<open>Paths\<close>

text \<open>
  A POSIX path as \<open>pathlib\<close> holds it: its root (\<open>0\<close> for a relative path, \<open>1\<close> for
  \<open>/\<close>, \<open>2\<close> for the special root \<open>//\<close>) and its components. Parsing drops empty
  components and \<open>.\<close>, and keeps \<open>..\<close>.
\<close>

record path =
  root :: nat
  parts :: "string list"

definition parse_path :: "string \<Rightarrow> path" where
  "parse_path s =
     (let n = length (takeWhile (\<lambda>c. c = CHR ''/'') s)
      in \<lparr>root = (if n = 0 then 0 else if n = 2 then 2 else 1),
          parts = filter (\<lambda>p. p \<noteq> [] \<and> p \<noteq> ''.'') (py_split ''/'' s)\<rparr>)"

text \<open>\<open>a / b\<close>: an absolute right operand replaces the left one.\<close>

definition path_join :: "path \<Rightarrow> path \<Rightarrow> path" where
  "path_join a b = (if root b > 0 then b else a\<lparr>parts := parts a @ parts b\<rparr>)"

text \<open>
  \<open>Path.resolve()\<close> of an absolute path on a file system without symbolic links:
  each \<open>..\<close> removes the component before it, and stays at the root when there is
  none; the root \<open>//\<close> becomes \<open>/\<close>.
\<close>

fun resolve_parts :: "string list \<Rightarrow> string list \<Rightarrow> string list" where
  "resolve_parts acc [] = acc"
| "resolve_parts acc (p # ps) =
     (if p = ''..'' then resolve_parts (butlast acc) ps else resolve_parts (acc @ [p]) ps)"

definition resolve :: "path \<Rightarrow> path" where
  "resolve p = \<lparr>root = min 1 (root p), parts = resolve_parts [] (parts p)\<rparr>"

definition str_path :: "path \<Rightarrow> string" where
  "str_path p =
     (if root p = 0 then (if parts p = [] then ''.'' else py_join ''/'' (parts p))
      else replicate (root p) CHR ''/'' @ py_join ''/'' (parts p))"

definition parent :: "path \<Rightarrow> path" where
  "parent p = p\<lparr>parts := butlast (parts p)\<rparr>"

text \<open>
  \<open>item.relative_to(base)\<close> compares components: it raises \<open>ValueError\<close> unless the
  components of \<open>base\<close> begin those of \<open>item\<close>.
\<close>

definition relative_to :: "path \<Rightarrow> path \<Rightarrow> py_exception + path" where
  "relative_to item base =
     (if root item = root base \<and> prefix (parts base) (parts item)
      then Inr \<lparr>root = 0, parts = drop (length (parts base)) (parts item)\<rparr>
      else Inl (OtherException ([CHR 0x27] @ str_path item @ [CHR 0x27]
                  @ '' is not in the subpath of '' @ [CHR 0x27] @ str_path base @ [CHR 0x27])))"

subsection \<open>The file system\<close>

text \<open>
  The world of the file tool: the directories and regular files below the root, keyed
  by their components, in the order the operating system lists them. A regular file
  holds text, or a number of bytes that do not decode as UTF-8. There are no symbolic links and no
  special files, and the root \<open>//\<close> names the same tree as \<open>/\<close>.
\<close>

datatype node = Dir | TextFile string | BinaryFile nat

type_synonym filesystem = "(string list \<times> node) list"

definition lookup :: "filesystem \<Rightarrow> path \<Rightarrow> node option" where
  "lookup fs p = (if parts p = [] then Some Dir else map_of fs (parts p))"

definition path_exists :: "filesystem \<Rightarrow> path \<Rightarrow> bool" where
  "path_exists fs p = (lookup fs p \<noteq> None)"

definition is_dir :: "filesystem \<Rightarrow> path \<Rightarrow> bool" where
  "is_dir fs p = (lookup fs p = Some Dir)"

definition is_file :: "filesystem \<Rightarrow> path \<Rightarrow> bool" where
  "is_file fs p = (path_exists fs p \<and> \<not> is_dir fs p)"

definition st_size :: "node \<Rightarrow> int option" where
  "st_size n =
     (case n of TextFile s \<Rightarrow> Some (int (length s)) | BinaryFile k \<Rightarrow> Some (int k)
      | Dir \<Rightarrow> None)"

text \<open>
  \<open>os.makedirs(p, exist_ok=True)\<close>: every missing directory on the way is created;
  a regular file on the way, or at \<open>p\<close> itself, is an error.
\<close>

fun makedirs_from :: "string list \<Rightarrow> string list \<Rightarrow> filesystem \<Rightarrow> py_exception + filesystem" where
  "makedirs_from seen [] fs = Inr fs"
| "makedirs_from seen (p # ps) fs =
     (let here = seen @ [p] in
      case map_of fs here of
        None \<Rightarrow> makedirs_from here ps (fs @ [(here, Dir)])
      | Some Dir \<Rightarrow> makedirs_from here ps fs
      | Some f \<Rightarrow>
          Inl (OSError ((if ps = [] then ''[Errno 17] File exists: ''
                         else ''[Errno 20] Not a directory: '')
                 @ [CHR 0x27] @ CHR ''/'' # py_join ''/'' (seen @ p # ps) @ [CHR 0x27])))"

definition makedirs :: "path \<Rightarrow> filesystem \<Rightarrow> py_exception + filesystem" where
  "makedirs p fs = makedirs_from [] (parts p) fs"

text \<open>
  \<open>open(p, "w")\<close> followed by \<open>f.write(text)\<close>: the file is created or emptied on
  opening; a directory cannot be opened, and the parent must be a directory.
\<close>

definition open_w :: "path \<Rightarrow> filesystem \<Rightarrow> py_exception + filesystem" where
  "open_w p fs =
     (if is_dir fs p then
        Inl (OSError (''[Errno 21] Is a directory: '' @ [CHR 0x27] @ str_path p @ [CHR 0x27]))
      else if \<not> is_dir fs (parent p) then
        Inl (OSError (''[Errno 2] No such file or directory: ''
               @ [CHR 0x27] @ str_path p @ [CHR 0x27]))
      else Inr (dict_set (parts p) (TextFile []) fs))"

text \<open>The entries directly in a directory, and all entries below it.\<close>

definition iterdir :: "filesystem \<Rightarrow> path \<Rightarrow> (string list \<times> node) list" where
  "iterdir fs p =
     filter (\<lambda>(q, n). prefix (parts p) q \<and> length q = Suc (length (parts p))) fs"

definition glob_all :: "filesystem \<Rightarrow> path \<Rightarrow> (string list \<times> node) list" where
  "glob_all fs p =
     filter (\<lambda>(q, n). prefix (parts p) q \<and> length q > length (parts p)) fs"

text \<open>\<open>os.remove\<close> of a file, and \<open>shutil.rmtree\<close> of a directory with all below it.\<close>

definition os_remove :: "path \<Rightarrow> filesystem \<Rightarrow> filesystem" where
  "os_remove p fs = filter (\<lambda>(q, n). q \<noteq> parts p) fs"

definition rmtree :: "path \<Rightarrow> filesystem \<Rightarrow> filesystem" where
  "rmtree p fs = filter (\<lambda>(q, n). \<not> prefix (parts p) q) fs"

subsection \<open>The operations\<close>

text \<open>\<open>str(v)\<close> and \<open>repr(v)\<close> of a value (text is quoted without escapes).\<close>

fun py_repr :: "pyval \<Rightarrow> string" where
  "py_repr PNone = ''None''"
| "py_repr (PBool b) = (if b then ''True'' else ''False'')"
| "py_repr (PInt i) = str_int i"
| "py_repr (PStr s) = [CHR 0x27] @ s @ [CHR 0x27]"
| "py_repr (PList vs) = ''['' @ py_join '', '' (map py_repr vs) @ '']''"
| "py_repr (PDict kvs) =
     ''{'' @ py_join '', '' (map (\<lambda>(k, v). [CHR 0x27] @ k @ [CHR 0x27] @ '': '' @ py_repr v) kvs)
       @ ''}''"

definition py_str :: "pyval \<Rightarrow> string" where
  "py_str v = (case v of PStr s \<Rightarrow> s | _ \<Rightarrow> py_repr v)"

type_synonym file_outcome = "(py_exception + tool_result) \<times> filesystem"

definition read_file :: "path \<Rightarrow> filesystem \<Rightarrow> file_outcome" where
  "read_file p fs =
     (if \<not> path_exists fs p then (Inl (ToolError (''File not found: '' @ str_path p)), fs)
      else if \<not> is_file fs p then (Inl (ToolError (''Not a file: '' @ str_path p)), fs)
      else (case lookup fs p of
              Some (TextFile txt) \<Rightarrow>
                (Inr \<lparr>success = True,
                      output_text = ''File content:'' @ [CHR 0x0A, CHR 0x0A] @ txt,
                      data = Some [(''content'', PStr txt), (''path'', PStr (str_path p))]\<rparr>,
                 fs)
            | _ \<Rightarrow> (Inl (ToolError (''Cannot read binary file: '' @ str_path p)), fs)))"

text \<open>
  \<open>_write_file\<close>. The file is opened, hence created or emptied, before \<open>f.write\<close>
  looks at the content. What the operating system raises here is wrapped by
  \<open>execute\<close>, see below.
\<close>

definition write_file :: "path \<Rightarrow> pyval \<Rightarrow> filesystem \<Rightarrow> file_outcome" where
  "write_file p content_arg fs =
     (if content_arg = PNone then
        (Inl (ToolError ''Content is required for write operation''), fs)
      else
        (case makedirs (parent p) fs of
           Inl e \<Rightarrow> (Inl e, fs)
         | Inr fs1 \<Rightarrow>
             (case open_w p fs1 of
                Inl e \<Rightarrow> (Inl e, fs1)
              | Inr fs2 \<Rightarrow>
                  (case content_arg of
                     PStr txt \<Rightarrow>
                       (Inr \<lparr>success = True,
                             output_text = ''Successfully wrote '' @ str_nat (length txt)
                               @ '' characters to '' @ str_path p,
                             data = Some [(''path'', PStr (str_path p)),
                                          (''size'', PInt (int (length txt)))]\<rparr>,
                        dict_set (parts p) (TextFile txt) fs2)
                   | v \<Rightarrow>
                       (Inl (TypeError (''write() argument must be str, not '' @ type_name v)),
                        fs2)))))"

text \<open>
  One entry of a listing: its path relative to the sandbox root, its kind, and its size
  when it is a file; then the dict built from it, and its line in the output.
\<close>

definition list_entry ::
  "path \<Rightarrow> string list \<times> node \<Rightarrow> py_exception + string \<times> string \<times> int option" where
  "list_entry base_dir item =
     (case relative_to \<lparr>root = 1, parts = fst item\<rparr> base_dir of
        Inl e \<Rightarrow> Inl e
      | Inr rel \<Rightarrow>
          Inr (str_path rel, (if snd item = Dir then ''directory'' else ''file''),
               st_size (snd item)))"

fun list_entries ::
  "path \<Rightarrow> (string list \<times> node) list \<Rightarrow> py_exception + (string \<times> string \<times> int option) list" where
  "list_entries base_dir [] = Inr []"
| "list_entries base_dir (item # items) =
     (case list_entry base_dir item of
        Inl e \<Rightarrow> Inl e
      | Inr f \<Rightarrow>
          (case list_entries base_dir items of
             Inl e \<Rightarrow> Inl e
           | Inr fs \<Rightarrow> Inr (f # fs)))"

definition entry_dict :: "string \<times> string \<times> int option \<Rightarrow> pyval" where
  "entry_dict item =
     (case item of (p, t, sz) \<Rightarrow>
        PDict [(''path'', PStr p), (''type'', PStr t),
               (''size'', (case sz of None \<Rightarrow> PNone | Some n \<Rightarrow> PInt n))])"

definition format_entry :: "string \<times> string \<times> int option \<Rightarrow> string" where
  "format_entry item =
     (case item of (p, t, sz) \<Rightarrow>
        (if t = ''directory'' then ''[DIR]'' else ''[FILE]'') @ '' '' @ p
          @ (case sz of None \<Rightarrow> [] | Some n \<Rightarrow> '' ('' @ str_int n @ '' bytes)'')
          @ [CHR 0x0A])"

definition list_files :: "path \<Rightarrow> path \<Rightarrow> pyval \<Rightarrow> filesystem \<Rightarrow> file_outcome" where
  "list_files base_dir p recursive fs =
     (if \<not> path_exists fs p then (Inl (ToolError (''Directory not found: '' @ str_path p)), fs)
      else if \<not> is_dir fs p then (Inl (ToolError (''Not a directory: '' @ str_path p)), fs)
      else
        (case list_entries base_dir
                (if py_truthy recursive then glob_all fs p else iterdir fs p) of
           Inl e \<Rightarrow> (Inl e, fs)
         | Inr files \<Rightarrow>
             (Inr \<lparr>success = True,
                   output_text = ''Contents of '' @ str_path p @ '':'' @ [CHR 0x0A, CHR 0x0A]
                     @ concat (map format_entry files),
                   data = Some [(''path'', PStr (str_path p)),
                                (''files'', PList (map entry_dict files))]\<rparr>,
              fs)))"

definition check_exists :: "path \<Rightarrow> filesystem \<Rightarrow> file_outcome" where
  "check_exists p fs =
     (let found = path_exists fs p;
          type_str = (if found then (if is_file fs p then ''file'' else ''directory'') else [])
      in (Inr \<lparr>success = True,
                output_text = (if found then ''Path exists'' else ''Path does not exist'')
                  @ '': '' @ str_path p @ '' ''
                  @ (if type_str = [] then [] else ''('' @ type_str @ '')''),
                data = Some [(''exists'', PBool found), (''type'', PStr type_str),
                             (''path'', PStr (str_path p))]\<rparr>,
          fs))"

definition delete_file :: "path \<Rightarrow> pyval \<Rightarrow> filesystem \<Rightarrow> file_outcome" where
  "delete_file p recursive fs =
     (if \<not> path_exists fs p then (Inl (ToolError (''Path not found: '' @ str_path p)), fs)
      else if is_file fs p then
        (Inr \<lparr>success = True, output_text = ''File deleted: '' @ str_path p,
              data = Some [(''path'', PStr (str_path p)), (''type'', PStr ''file'')]\<rparr>,
         os_remove p fs)
      else if \<not> py_truthy recursive then
        (Inl (ToolError (''Cannot delete directory without recursive=True: '' @ str_path p)), fs)
      else
        (Inr \<lparr>success = True, output_text = ''Directory deleted: '' @ str_path p,
              data = Some [(''path'', PStr (str_path p)), (''type'', PStr ''directory'')]\<rparr>,
         rmtree p fs))"

text \<open>
  The dispatch inside the \<open>try\<close> of \<open>execute\<close>, and its two handlers: a
  \<open>ToolError\<close> is raised again as it is, any other \<open>Exception\<close> is wrapped
  into one.
\<close>

definition dispatch :: "path \<Rightarrow> pyval \<Rightarrow> path \<Rightarrow> pyval \<Rightarrow> pyval \<Rightarrow> filesystem \<Rightarrow> file_outcome" where
  "dispatch base_dir operation full_path content_arg recursive fs =
     (if operation = PStr ''read'' then read_file full_path fs
      else if operation = PStr ''write'' then write_file full_path content_arg fs
      else if operation = PStr ''list'' then list_files base_dir full_path recursive fs
      else if operation = PStr ''exists'' then check_exists full_path fs
      else if operation = PStr ''delete'' then delete_file full_path recursive fs
      else (Inl (ToolError (''Unknown operation: '' @ py_str operation)), fs))"

text \<open>
  \<open>FileOperationsTool.execute\<close> with its parameters bound. \<open>base_dir\<close> is the
  sandbox root, \<open>~/uranus_workspace\<close>. The check compares the two paths as text.
\<close>

definition file_execute :: "path \<Rightarrow> pyval \<Rightarrow> pyval \<Rightarrow> pyval \<Rightarrow> pyval \<Rightarrow> filesystem \<Rightarrow> file_outcome" where
  "file_execute base_dir operation path_arg content_arg recursive fs =
     (case makedirs base_dir fs of
        Inl e \<Rightarrow> (Inl e, fs)
      | Inr fs0 \<Rightarrow>
          (case path_arg of
             PStr path_text \<Rightarrow>
               (let full_path = resolve (path_join base_dir (parse_path path_text)) in
                if \<not> py_startswith (str_path full_path) (str_path base_dir) then
                  (Inl (ToolError (''Access denied: Path must be within ''
                          @ str_path base_dir)), fs0)
                else
                  (case dispatch base_dir operation full_path content_arg recursive fs0 of
                     (Inr r, fs1) \<Rightarrow> (Inr r, fs1)
                   | (Inl e, fs1) \<Rightarrow>
                       if is_ToolError e then (Inl e, fs1)
                       else if is_Exception e then
                         (Inl (ToolError (''Error during file operation: '' @ str_exc e)),
                          fs1)
                       else (Inl e, fs1)))
           | v \<Rightarrow>
               (Inl (TypeError (''unsupported operand type(s) for /: '' @ [CHR 0x27]
                       @ ''PosixPath'' @ [CHR 0x27] @ '' and '' @ [CHR 0x27] @ type_name v
                       @ [CHR 0x27])), fs0)))"

subsection \<open>The tool as the registry sees it\<close>

text \<open>
  Binding \<open>**kwargs\<close> to the parameters of a method: the first keyword that is not a
  parameter name raises \<open>TypeError\<close>, then a missing required parameter does.
\<close>

fun first_unexpected :: "string list \<Rightarrow> kwargs \<Rightarrow> string option" where
  "first_unexpected params [] = None"
| "first_unexpected params ((k, v) # kw) =
     (if k \<in> set params then first_unexpected params kw else Some k)"

definition quoted :: "string \<Rightarrow> string" where
  "quoted s = [CHR 0x27] @ s @ [CHR 0x27]"

text \<open>
  \<open>execute(self, operation, path, content=None, recursive=False)\<close> called with
  keyword arguments.
\<close>

definition file_tool_execute :: "path \<Rightarrow> kwargs \<Rightarrow> filesystem \<Rightarrow> file_outcome" where
  "file_tool_execute base_dir kw fs =
     (case first_unexpected [''operation'', ''path'', ''content'', ''recursive''] kw of
        Some k \<Rightarrow>
          (Inl (TypeError (''FileOperationsTool.execute() got an unexpected keyword argument ''
                  @ quoted k)), fs)
      | None \<Rightarrow>
          (case (map_of kw ''operation'', map_of kw ''path'') of
             (None, None) \<Rightarrow>
               (Inl (TypeError (''FileOperationsTool.execute() missing 2 required positional arguments: ''
                       @ quoted ''operation'' @ '' and '' @ quoted ''path'')), fs)
           | (None, Some p) \<Rightarrow>
               (Inl (TypeError (''FileOperationsTool.execute() missing 1 required positional argument: ''
                       @ quoted ''operation'')), fs)
           | (Some operation, None) \<Rightarrow>
               (Inl (TypeError (''FileOperationsTool.execute() missing 1 required positional argument: ''
                       @ quoted ''path'')), fs)
           | (Some operation, Some p) \<Rightarrow>
               file_execute base_dir operation p
                 (case map_of kw ''content'' of None \<Rightarrow> PNone | Some v \<Rightarrow> v)
                 (case map_of kw ''recursive'' of None \<Rightarrow> PBool False | Some v \<Rightarrow> v)
                 fs))"

definition file_parameters_schema :: pyval where
  "file_parameters_schema =
     PDict [(''type'', PStr ''object''),
            (''properties'', PDict
               [(''operation'', PDict
                   [(''type'', PStr ''string''),
                    (''enum'', PList [PStr ''read'', PStr ''write'', PStr ''list'',
                                      PStr ''exists'', PStr ''delete'']),
                    (''description'', PStr ''The operation to perform'')]),
                (''path'', PDict
                   [(''type'', PStr ''string''),
                    (''description'', PStr ''The file or directory path (relative to base_dir)'')]),
                (''content'', PDict
                   [(''type'', PStr ''string''),
                    (''description'', PStr ''Content to write (for write operation)'')]),
                (''recursive'', PDict
                   [(''type'', PStr ''boolean''),
                    (''description'',
                     PStr ''Whether to operate recursively (for list/delete operations)''),
                    (''default'', PBool False)])]),
            (''required'', PList [PStr ''operation'', PStr ''path''])]"

definition file_operations_tool :: "path \<Rightarrow> filesystem tool" where
  "file_operations_tool base_dir =
     \<lparr>tool_name = ''file_operations'',
      tool_description = ''Perform file operations like reading, writing, listing files, etc.'',
      tool_execute = file_tool_execute base_dir,
      get_parameters_schema = Inr file_parameters_schema\<rparr>"

subsection \<open>A concrete machine\<close>

text \<open>
  A home directory with the workspace, and beside the workspace a directory whose name
  begins with the workspace's name.
\<close>

definition home :: path where
  "home = \<lparr>root = 1, parts = [''home'', ''user'']\<rparr>"

definition workspace :: path where
  "workspace = path_join home (parse_path ''uranus_workspace'')"

definition disk :: filesystem where
  "disk =
     [([''home''], Dir),
      ([''home'', ''user''], Dir),
      ([''home'', ''user'', ''uranus_workspace''], Dir),
      ([''home'', ''user'', ''uranus_workspace_backup''], Dir),
      ([''home'', ''user'', ''uranus_workspace_backup'', ''secret.txt''], TextFile ''api-key''),
      ([''etc''], Dir),
      ([''etc'', ''passwd''], TextFile ''root:x:0:0'')]"

definition file_agent :: "filesystem agent" where
  "file_agent = uranus_agent mock_llm_ask (register (file_operations_tool workspace) [])"

subsection \<open>The sandbox check\<close>

text \<open>
  A request whose resolved path, as text, does not begin with the text of the sandbox
  root is refused before any operation runs: the file system is as \<open>makedirs\<close> of the
  root left it.
\<close>

lemma file_execute_denied:
  assumes "makedirs base_dir fs = Inr fs0"
    and "\<not> py_startswith (str_path (resolve (path_join base_dir (parse_path p))))
             (str_path base_dir)"
  shows "file_execute base_dir operation (PStr p) content_arg recursive fs =
     (Inl (ToolError (''Access denied: Path must be within '' @ str_path base_dir)), fs0)"
  using assms by (simp add: file_execute_def)

text \<open>
  C1, evaluated on the code. The workspace is \<open>/home/user/uranus_workspace\<close>. The path
  \<open>../uranus_workspace_backup/secret.txt\<close> resolves to a file in a sibling directory,
  outside the workspace; its text begins with the text of the workspace, so the check
  lets it through: \<open>read\<close> returns the content of the outside file, \<open>write\<close> creates
  a file outside, and a recursive \<open>delete\<close> removes the sibling directory. Paths that
  leave through \<open>/etc\<close> are refused.
\<close>

theorem sandbox_prefix_check_lets_sibling_through:
  "\<not> prefix (parts workspace)
        (parts (resolve (path_join workspace
           (parse_path ''../uranus_workspace_backup/secret.txt''))))
   \<and> file_execute workspace (PStr ''read'') (PStr ''../uranus_workspace_backup/secret.txt'')
        PNone (PBool False) disk
     = (Inr \<lparr>success = True,
             output_text = ''File content:'' @ [CHR 0x0A, CHR 0x0A] @ ''api-key'',
             data = Some [(''content'', PStr ''api-key''),
                          (''path'', PStr ''/home/user/uranus_workspace_backup/secret.txt'')]\<rparr>,
        disk)
   \<and> map_of (snd (file_execute workspace (PStr ''write'')
                (PStr ''../uranus_workspace_backup/new.txt'') (PStr ''x'') (PBool False) disk))
        [''home'', ''user'', ''uranus_workspace_backup'', ''new.txt'']
     = Some (TextFile ''x'')
   \<and> map_of (snd (file_execute workspace (PStr ''delete'')
                (PStr ''../uranus_workspace_backup'') PNone (PBool True) disk))
        [''home'', ''user'', ''uranus_workspace_backup'', ''secret.txt'']
     = None
   \<and> file_execute workspace (PStr ''read'') (PStr ''../../../etc/passwd'') PNone (PBool False) disk
     = (Inl (ToolError ''Access denied: Path must be within /home/user/uranus_workspace''), disk)
   \<and> file_execute workspace (PStr ''read'') (PStr ''/etc/passwd'') PNone (PBool False) disk
     = (Inl (ToolError ''Access denied: Path must be within /home/user/uranus_workspace''), disk)"
  by code_simp

subsection \<open>The agent's file requests\<close>

text \<open>
  The keywords the agent passes, \<open>action\<close> and \<open>name\<close>, are not parameters of
  \<open>FileOperationsTool.execute\<close>: the call raises before the body of \<open>execute\<close> runs.
\<close>

lemma file_tool_rejects_action:
  "file_tool_execute base_dir ((''action'', v) # kw) fs =
     (Inl (TypeError (''FileOperationsTool.execute() got an unexpected keyword argument ''
             @ quoted ''action'')), fs)"
  by (simp add: file_tool_execute_def)

text \<open>
  C6, evaluated on the code. With the file tool registered, \<open>create file notes.txt\<close>
  is answered with the text of a \<open>TypeError\<close>; the file system is untouched, and a
  check for \<open>notes.txt\<close> through the registry reports that it does not exist.
\<close>

theorem create_file_request_creates_nothing:
  "fst (run next_step file_agent ''create file notes.txt'' disk)
     = Inr (''Error: FileOperationsTool.execute() got an unexpected keyword argument ''
            @ [CHR 0x27] @ ''action'' @ [CHR 0x27])
   \<and> snd (snd (run next_step file_agent ''create file notes.txt'' disk)) = disk
   \<and> fst (execute (agent_tools file_agent) ''file_operations''
            [(''operation'', PStr ''exists''), (''path'', PStr ''notes.txt'')] disk)
     = Inr \<lparr>success = True,
            output_text = ''Path does not exist: /home/user/uranus_workspace/notes.txt '',
            data = Some [(''exists'', PBool False), (''type'', PStr []),
                         (''path'', PStr ''/home/user/uranus_workspace/notes.txt'')]\<rparr>"
  by code_simp

text \<open>
  An input that is exactly \<open>ls\<close>, in any case, is taken by the terminal trigger, which
  stands before the listing trigger and always returns.
\<close>

lemma ls_is_a_terminal_command:
  assumes "py_lower input_text = ''ls''"
  shows "try_block a input_text w = terminal_rule a input_text w"
proof -
  have "\<not> has_status_keyword input_text"
    using assms by (simp add: has_status_keyword_def py_startswith_def)
  moreover have "is_terminal_command input_text"
    using assms by (simp add: is_terminal_command_def)
  ultimately show ?thesis
    using assms by (simp add: try_block_def py_startswith_def)
qed

text \<open>
  C7, evaluated on the code. With the file tool registered, \<open>list files docs\<close> is
  answered with the text of a \<open>TypeError\<close>, and \<open>ls\<close> never reaches the file tool:
  it is answered by the terminal trigger, here with the message that the terminal tool
  is missing.
\<close>

theorem list_files_request_lists_nothing:
  "fst (run next_step file_agent ''list files docs'' disk)
     = Inr (''Error: FileOperationsTool.execute() got an unexpected keyword argument ''
            @ [CHR 0x27] @ ''action'' @ [CHR 0x27])
   \<and> fst (run next_step file_agent ''ls'' disk)
     = Inr (''Terminal tool is not available. Please make sure it'' @ [CHR 0x27]
            @ ''s properly registered.'')"
  by code_simp

section \<open>The terminal tool (tool/terminal.py)\<close>

subsection \<open>\<open>os.path\<close> on POSIX\<close>

definition os_path_isabs :: "string \<Rightarrow> bool" where
  "os_path_isabs s = py_startswith s ''/''"

definition os_path_join :: "string \<Rightarrow> string \<Rightarrow> string" where
  "os_path_join a b =
     (if py_startswith b ''/'' then b
      else if a = [] \<or> last a = CHR ''/'' then a @ b
      else a @ ''/'' @ b)"

text \<open>
  The loop of \<open>normpath\<close> over the components: empty ones and \<open>.\<close> are skipped;
  \<open>..\<close> is kept at the start of a relative path and after another \<open>..\<close>, removes
  the component before it otherwise, and is dropped at the root.
\<close>

fun normpath_comps :: "bool \<Rightarrow> string list \<Rightarrow> string list \<Rightarrow> string list" where
  "normpath_comps rooted new_comps [] = new_comps"
| "normpath_comps rooted new_comps (c # cs) =
     (if c = [] \<or> c = ''.'' then normpath_comps rooted new_comps cs
      else if c \<noteq> ''..'' \<or> (\<not> rooted \<and> new_comps = [])
              \<or> (new_comps \<noteq> [] \<and> last new_comps = ''..'')
        then normpath_comps rooted (new_comps @ [c]) cs
      else if new_comps \<noteq> [] then normpath_comps rooted (butlast new_comps) cs
      else normpath_comps rooted new_comps cs)"

definition os_path_normpath :: "string \<Rightarrow> string" where
  "os_path_normpath s =
     (if s = [] then ''.''
      else
        (let initial_slashes =
               (if py_startswith s ''/''
                then (if py_startswith s ''//'' \<and> \<not> py_startswith s ''///'' then 2 else 1)
                else (0::nat));
             comps = normpath_comps (initial_slashes > 0) [] (py_split ''/'' s);
             p = replicate initial_slashes CHR ''/'' @ py_join ''/'' comps
         in if p = [] then ''.'' else p))"

text \<open>\<open>abspath\<close> completes a relative path with the working directory of the process.\<close>

definition os_path_abspath :: "string \<Rightarrow> string \<Rightarrow> string" where
  "os_path_abspath getcwd s =
     os_path_normpath (if os_path_isabs s then s else os_path_join getcwd s)"

subsection \<open>The tool and its world\<close>

text \<open>
  What \<open>TerminalTool.execute\<close> reads and writes: the field \<open>current_path\<close> of the
  tool instance, the working directory of the Python process (\<open>os.getcwd()\<close>,
  \<open>os.chdir\<close>), the file system, and the commands handed to
  \<open>asyncio.create_subprocess_shell\<close>, each with the \<open>cwd\<close> it was given. Some
  directories the process may not enter (\<open>no_entry\<close>, by their components). Calls
  are serialised by the instance's lock, so one call at a time is modelled.
\<close>

record terminal =
  current_path :: string
  process_cwd :: string
  files :: filesystem
  no_entry :: "string list list"
  spawned :: "(string \<times> string) list"

text \<open>
  A finished subprocess, with its output already decoded. The shell is a parameter:
  given a command line, a working directory and the file system, it raises (the
  process cannot be started, or its output does not decode) or finishes and leaves a
  file system behind.
\<close>

record completed =
  stdout :: string
  stderr :: string
  returncode :: int

type_synonym shell = "string \<Rightarrow> string \<Rightarrow> filesystem \<Rightarrow> (py_exception + completed) \<times> filesystem"

definition located :: "terminal \<Rightarrow> string \<Rightarrow> path" where
  "located t s = resolve (path_join (parse_path (process_cwd t)) (parse_path s))"

definition os_path_exists :: "terminal \<Rightarrow> string \<Rightarrow> bool" where
  "os_path_exists t s = path_exists (files t) (located t s)"

text \<open>
  \<open>os.chdir\<close>: the target must be a directory that the process may enter;
  \<open>os.getcwd()\<close> then gives its canonical path. Every failure is an \<open>OSError\<close>.
\<close>

definition os_chdir :: "string \<Rightarrow> terminal \<Rightarrow> py_exception + terminal" where
  "os_chdir s t =
     (if is_dir (files t) (located t s) then
        (if parts (located t s) \<in> set (no_entry t)
         then Inl (OSError (''[Errno 13] Permission denied: '' @ quoted s))
         else Inr (t\<lparr>process_cwd := str_path (located t s)\<rparr>))
      else if path_exists (files t) (located t s) then
        Inl (OSError (''[Errno 20] Not a directory: '' @ quoted s))
      else Inl (OSError (''[Errno 2] No such file or directory: '' @ quoted s)))"

text \<open>
  \<open>create_subprocess_shell(cmd, cwd=...)\<close> and \<open>communicate()\<close>: the call is
  recorded; it cannot start in a working directory that is not there or may not be
  entered.
\<close>

definition spawn :: "shell \<Rightarrow> string \<Rightarrow> string \<Rightarrow> terminal \<Rightarrow> (py_exception + completed) \<times> terminal" where
  "spawn sh cmd cwd t =
     (let t1 = t\<lparr>spawned := spawned t @ [(cmd, cwd)]\<rparr> in
      if \<not> is_dir (files t) (located t cwd) then
        (Inl (OSError (''[Errno 2] No such file or directory: '' @ quoted cwd)), t1)
      else if parts (located t cwd) \<in> set (no_entry t) then
        (Inl (OSError (''[Errno 13] Permission denied: '' @ quoted cwd)), t1)
      else (case sh cmd cwd (files t) of
              (r, fs') \<Rightarrow> (r, t1\<lparr>files := fs'\<rparr>)))"

text \<open>The directory a \<open>cd\<close> segment names, as the tool computes it.\<close>

definition cd_target :: "terminal \<Rightarrow> string \<Rightarrow> string" where
  "cd_target t cmd =
     (let p = py_strip (drop 3 cmd) in
      os_path_abspath (process_cwd t)
        (if \<not> os_path_isabs p then os_path_join (current_path t) p else p))"

text \<open>
  One \<open>cd\<close> segment: the new output text, the new error text and the tool. What
  \<open>os.chdir\<close> raises is an \<open>OSError\<close>, which the inner \<open>except Exception\<close>
  catches.
\<close>

definition cd_segment :: "string \<Rightarrow> string \<Rightarrow> string \<Rightarrow> terminal \<Rightarrow> string \<times> string \<times> terminal" where
  "cd_segment cmd final_output final_error t =
     (let p = cd_target t cmd in
      if \<not> os_path_exists t p then
        (final_output, final_error @ ''Directory not found: '' @ p @ [CHR 0x0A], t)
      else
        (case os_chdir p t of
           Inl e \<Rightarrow>
             (final_output,
              final_error @ ''Error changing directory: '' @ str_exc e @ [CHR 0x0A], t)
         | Inr t1 \<Rightarrow>
             (final_output @ ''Changed directory to '' @ p @ [CHR 0x0A], final_error,
              t1\<lparr>current_path := p\<rparr>)))"

text \<open>The \<open>for\<close> loop over the segments; an exception ends it.\<close>

fun run_commands ::
  "shell \<Rightarrow> string list \<Rightarrow> string \<Rightarrow> string \<Rightarrow> terminal \<Rightarrow> (py_exception + string \<times> string) \<times> terminal" where
  "run_commands sh [] final_output final_error t = (Inr (final_output, final_error), t)"
| "run_commands sh (cmd # cmds) final_output final_error t =
     (if py_startswith cmd ''cd '' then
        (case cd_segment cmd final_output final_error t of
           (out, err, t1) \<Rightarrow> run_commands sh cmds out err t1)
      else
        (case spawn sh cmd (current_path t) t of
           (Inl e, t1) \<Rightarrow> (Inl e, t1)
         | (Inr proc, t1) \<Rightarrow>
             run_commands sh cmds
               (if stdout proc = [] then final_output
                else final_output @ stdout proc @ [CHR 0x0A])
               (if stderr proc = [] then final_error
                else final_error @ stderr proc @ [CHR 0x0A])
               t1))"

text \<open>\<open>[cmd.strip() for cmd in command.split("&") if cmd.strip()]\<close>\<close>

definition segments :: "string \<Rightarrow> string list" where
  "segments command =
     map py_strip (filter (\<lambda>cmd. py_strip cmd \<noteq> []) (py_split ''&'' command))"

definition terminal_execute :: "shell \<Rightarrow> string \<Rightarrow> terminal \<Rightarrow> (py_exception + tool_result) \<times> terminal" where
  "terminal_execute sh command t =
     (case run_commands sh (segments command) [] [] t of
        (Inr (final_output, final_error), t1) \<Rightarrow>
          (Inr \<lparr>success = True, output_text = py_strip final_output,
                data = Some [(''error'', PStr (py_strip final_error)),
                             (''current_path'', PStr (current_path t1))]\<rparr>, t1)
      | (Inl e, t1) \<Rightarrow>
          if is_Exception e
          then (Inr (failure (''Error executing command: '' @ str_exc e)), t1)
          else (Inl e, t1))"

subsection \<open>A concrete shell and tool instance\<close>

text \<open>
  A shell that knows \<open>pwd\<close> and \<open>false\<close> and reports every other command as not
  found, and a tool instance created while the process stands in the home directory.
\<close>

definition example_shell :: shell where
  "example_shell cmd cwd fs =
     (if cmd = ''pwd'' then (Inr \<lparr>stdout = cwd @ [CHR 0x0A], stderr = [], returncode = 0\<rparr>, fs)
      else if cmd = ''false'' then (Inr \<lparr>stdout = [], stderr = [], returncode = 1\<rparr>, fs)
      else (Inr \<lparr>stdout = [],
                 stderr = ''sh: 1: '' @ cmd @ '': not found'' @ [CHR 0x0A],
                 returncode = 127\<rparr>, fs))"

definition machine :: terminal where
  "machine = \<lparr>current_path = ''/home/user'', process_cwd = ''/home/user'',
              files = disk, no_entry = [], spawned = []\<rparr>"

text \<open>
  Two more tool instances: one created with \<open>/etc\<close> as its current path while the
  process stands in the home directory, and one on a machine where the process may not
  enter \<open>/etc\<close>.
\<close>

definition elsewhere :: terminal where
  "elsewhere = machine\<lparr>current_path := ''/etc''\<rparr>"

definition locked :: terminal where
  "locked = machine\<lparr>no_entry := [[''etc'']]\<rparr>"

subsection \<open>What a segment does\<close>

lemma cd_segment_frame:
  assumes "cd_segment cmd out err t = (out', err', t')"
  shows "spawned t' = spawned t \<and> files t' = files t"
  using assms by (auto simp: cd_segment_def os_chdir_def Let_def split: if_splits)

lemma spawn_records:
  assumes "spawn sh cmd cwd t = (r, t')"
  shows "spawned t' = spawned t @ [(cmd, cwd)]"
  using assms by (auto simp: spawn_def Let_def split: if_splits prod.splits)

lemma cd_segment_missing:
  assumes "\<not> os_path_exists t (cd_target t cmd)"
  shows "cd_segment cmd out err t =
     (out, err @ ''Directory not found: '' @ cd_target t cmd @ [CHR 0x0A], t)"
  using assms by (simp add: cd_segment_def Let_def)

lemma os_chdir_effect:
  assumes "os_chdir s t = Inr t1"
  shows "t1 = t\<lparr>process_cwd := str_path (located t s)\<rparr>"
  using assms by (auto simp: os_chdir_def split: if_splits)

lemma cd_segment_entered:
  assumes "os_path_exists t (cd_target t cmd)" and "os_chdir (cd_target t cmd) t = Inr t1"
  shows "cd_segment cmd out err t =
     (out @ ''Changed directory to '' @ cd_target t cmd @ [CHR 0x0A], err,
      t\<lparr>process_cwd := str_path (located t (cd_target t cmd)),
        current_path := cd_target t cmd\<rparr>)"
  using assms os_chdir_effect [OF assms(2)] by (simp add: cd_segment_def Let_def)

lemma cd_segment_refused:
  assumes "os_path_exists t (cd_target t cmd)" and "os_chdir (cd_target t cmd) t = Inl e"
  shows "cd_segment cmd out err t =
     (out, err @ ''Error changing directory: '' @ str_exc e @ [CHR 0x0A], t)"
  using assms by (simp add: cd_segment_def Let_def)

lemma spawn_frame:
  assumes "spawn sh cmd cwd t = (r, t')"
  shows "current_path t' = current_path t \<and> process_cwd t' = process_cwd t
       \<and> no_entry t' = no_entry t"
  using assms by (auto simp: spawn_def Let_def split: if_splits prod.splits)

text \<open>
  Every command the loop hands to a subprocess is one of its segments and does not
  begin with \<open>cd \<close>.
\<close>

lemma run_commands_spawns_no_cd:
  "\<forall>e \<in> set (spawned (snd (run_commands sh cmds out err t))).
      e \<in> set (spawned t) \<or> (fst e \<in> set cmds \<and> \<not> py_startswith (fst e) ''cd '')"
proof (induction cmds arbitrary: out err t)
  case Nil
  then show ?case by simp
next
  case (Cons cmd cmds)
  show ?case
  proof (cases "py_startswith cmd ''cd ''")
    case True
    obtain out' err' t' where cd: "cd_segment cmd out err t = (out', err', t')"
      by (metis prod_cases3)
    with True Cons.IH [of out' err' t'] cd_segment_frame [OF cd] show ?thesis
      by auto
  next
    case False
    obtain r t' where sp: "spawn sh cmd (current_path t) t = (r, t')"
      by (metis surj_pair)
    show ?thesis
    proof (cases r)
      case (Inl e)
      with False sp spawn_records [OF sp] show ?thesis by auto
    next
      case (Inr proc)
      let ?o = "if stdout proc = [] then out else out @ stdout proc @ [CHR 0x0A]"
      let ?e = "if stderr proc = [] then err else err @ stderr proc @ [CHR 0x0A]"
      have eq: "run_commands sh (cmd # cmds) out err t = run_commands sh cmds ?o ?e t'"
        using False sp Inr by simp
      from Cons.IH [of ?o ?e t'] spawn_records [OF sp] False show ?thesis
        unfolding eq by fastforce
    qed
  qed
qed

lemma terminal_execute_state:
  "snd (terminal_execute sh command t) = snd (run_commands sh (segments command) [] [] t)"
  by (simp add: terminal_execute_def split: prod.splits sum.splits)

subsection \<open>Success is reported whatever the segments did\<close>



subsection \<open>What \<open>cd\<close> changes\<close>

text \<open>The loop over a list of segments is the loop over its first part, then over the rest.\<close>

lemma run_commands_append:
  "run_commands sh (pre @ rest) out err t =
     (case run_commands sh pre out err t of
        (Inl e, t') \<Rightarrow> (Inl e, t')
      | (Inr (o1, e1), t') \<Rightarrow> run_commands sh rest o1 e1 t')"
proof (induction pre arbitrary: out err t)
  case Nil
  then show ?case by simp
next
  case (Cons cmd pre)
  show ?case
  proof (cases "py_startswith cmd ''cd ''")
    case True
    then show ?thesis
      using Cons.IH by (simp split: prod.splits)
  next
    case False
    then show ?thesis
      using Cons.IH by (simp split: prod.splits sum.splits)
  qed
qed

text \<open>
  A loop without \<open>cd\<close> segments leaves both directories as they were, and hands its
  segments to subprocesses in order, each with the stored current path as working
  directory, up to the first that raises.
\<close>

lemma run_commands_without_cd:
  assumes "\<forall>c \<in> set cmds. \<not> py_startswith c ''cd ''"
  shows "current_path (snd (run_commands sh cmds out err t)) = current_path t
       \<and> process_cwd (snd (run_commands sh cmds out err t)) = process_cwd t
       \<and> (\<exists>k\<le>length cmds.
            spawned (snd (run_commands sh cmds out err t)) =
              spawned t @ map (\<lambda>c. (c, current_path t)) (take k cmds)
            \<and> (\<forall>res. fst (run_commands sh cmds out err t) = Inr res \<longrightarrow> k = length cmds))"
  using assms
proof (induction cmds arbitrary: out err t)
  case Nil
  then show ?case by simp
next
  case (Cons cmd cmds)
  then have nocd: "\<not> py_startswith cmd ''cd ''"
    and rest: "\<forall>c \<in> set cmds. \<not> py_startswith c ''cd ''"
    by simp_all
  obtain r t' where sp: "spawn sh cmd (current_path t) t = (r, t')"
    by (metis surj_pair)
  note frame = spawn_frame [OF sp] and rec = spawn_records [OF sp]
  let ?goal = "\<lambda>X. current_path (snd X) = current_path t
       \<and> process_cwd (snd X) = process_cwd t
       \<and> (\<exists>k\<le>length (cmd # cmds).
            spawned (snd X) =
              spawned t @ map (\<lambda>c. (c, current_path t)) (take k (cmd # cmds))
            \<and> (\<forall>res. fst X = Inr res \<longrightarrow> k = length (cmd # cmds)))"
  show ?case
  proof (cases r)
    case (Inl e)
    with nocd sp have stop: "run_commands sh (cmd # cmds) out err t = (Inl e, t')"
      by simp
    have "spawned t' = spawned t @ map (\<lambda>c. (c, current_path t)) (take 1 (cmd # cmds))"
      using rec by simp
    then have "?goal (Inl e, t')"
      using frame by (auto intro: exI [of _ 1])
    then show ?thesis
      unfolding stop .
  next
    case (Inr proc)
    let ?o = "if stdout proc = [] then out else out @ stdout proc @ [CHR 0x0A]"
    let ?e = "if stderr proc = [] then err else err @ stderr proc @ [CHR 0x0A]"
    have eq: "run_commands sh (cmd # cmds) out err t = run_commands sh cmds ?o ?e t'"
      using nocd sp Inr by simp
    from Cons.IH [OF rest, of ?o ?e t'] obtain k where k: "k \<le> length cmds"
      and sp': "spawned (snd (run_commands sh cmds ?o ?e t')) =
                 spawned t' @ map (\<lambda>c. (c, current_path t')) (take k cmds)"
      and full: "\<forall>res. fst (run_commands sh cmds ?o ?e t') = Inr res \<longrightarrow> k = length cmds"
      and cur: "current_path (snd (run_commands sh cmds ?o ?e t')) = current_path t'"
      and cwd: "process_cwd (snd (run_commands sh cmds ?o ?e t')) = process_cwd t'"
      by blast
    have "spawned (snd (run_commands sh cmds ?o ?e t')) =
            spawned t @ map (\<lambda>c. (c, current_path t)) (take (Suc k) (cmd # cmds))"
      using sp' rec frame by simp
    moreover have "Suc k \<le> length (cmd # cmds)"
      using k by simp
    moreover have "\<forall>res. fst (run_commands sh cmds ?o ?e t') = Inr res
                     \<longrightarrow> Suc k = length (cmd # cmds)"
      using full by simp
    ultimately have "?goal (run_commands sh cmds ?o ?e t')"
      using cur cwd frame by (auto intro: exI [of _ "Suc k"])
    then show ?thesis
      unfolding eq .
  qed
qed

text \<open>
  C9 as stated fails: after \<open>cd uranus_workspace\<close> the working directory of the
  Python process is no longer the one it was, because the tool calls \<open>os.chdir\<close>.
\<close>

theorem cd_changes_process_directory:
  "process_cwd (snd (terminal_execute example_shell ''cd uranus_workspace'' machine))
     \<noteq> process_cwd machine"
  by code_simp

text \<open>
  C9, amended. No segment that begins with \<open>cd \<close> is handed to a subprocess. The
  target of a \<open>cd\<close> segment is its argument, joined to the stored current path when
  it is not absolute, and normalised. When the target does not exist, or \<open>os.chdir\<close>
  raises on it, the tool is left as it was and a line is added to the error text. When
  \<open>os.chdir\<close> succeeds, the working directory of the process and the stored current
  path are both set to the target (the former in canonical form), a confirmation line
  is added to the output, and nothing else changes. A segment other than \<open>cd\<close> is
  handed to a subprocess with the stored current path as its working directory, and
  changes neither that path nor the working directory of the process. The segments
  that follow in the same call run with the tool as the segments before them left it,
  and a call leaves the tool as its loop left it, for the calls that follow. In
  particular a call without \<open>cd\<close> segments runs every segment it reaches with the
  stored current path as working directory.
\<close>

theorem cd_is_intercepted:
  "(\<forall>e \<in> set (spawned (snd (terminal_execute sh command t))).
       e \<in> set (spawned t) \<or> \<not> py_startswith (fst e) ''cd '')
   \<and> (\<not> os_path_isabs (py_strip (drop 3 cmd)) \<longrightarrow>
        cd_target t cmd =
          os_path_abspath (process_cwd t)
            (os_path_join (current_path t) (py_strip (drop 3 cmd))))
   \<and> (py_startswith cmd ''cd '' \<and> \<not> os_path_exists t (cd_target t cmd) \<longrightarrow>
        run_commands sh (cmd # cmds) out err t =
          run_commands sh cmds out
            (err @ ''Directory not found: '' @ cd_target t cmd @ [CHR 0x0A]) t)
   \<and> (py_startswith cmd ''cd '' \<and> os_path_exists t (cd_target t cmd)
         \<and> os_chdir (cd_target t cmd) t = Inl e \<longrightarrow>
        run_commands sh (cmd # cmds) out err t =
          run_commands sh cmds out
            (err @ ''Error changing directory: '' @ str_exc e @ [CHR 0x0A]) t)
   \<and> (py_startswith cmd ''cd '' \<and> os_path_exists t (cd_target t cmd)
         \<and> os_chdir (cd_target t cmd) t = Inr t1 \<longrightarrow>
        run_commands sh (cmd # cmds) out err t =
          run_commands sh cmds
            (out @ ''Changed directory to '' @ cd_target t cmd @ [CHR 0x0A]) err
            (t\<lparr>process_cwd := str_path (located t (cd_target t cmd)),
               current_path := cd_target t cmd\<rparr>))
   \<and> (\<not> py_startswith cmd ''cd '' \<longrightarrow>
        (\<exists>r t2. spawn sh cmd (current_path t) t = (r, t2)
           \<and> spawned t2 = spawned t @ [(cmd, current_path t)]
           \<and> current_path t2 = current_path t \<and> process_cwd t2 = process_cwd t
           \<and> run_commands sh (cmd # cmds) out err t =
               (case r of
                  Inl x \<Rightarrow> (Inl x, t2)
                | Inr proc \<Rightarrow>
                    run_commands sh cmds
                      (if stdout proc = [] then out else out @ stdout proc @ [CHR 0x0A])
                      (if stderr proc = [] then err else err @ stderr proc @ [CHR 0x0A])
                      t2)))
   \<and> run_commands sh (pre @ rest) out err t =
        (case run_commands sh pre out err t of
           (Inl x, t') \<Rightarrow> (Inl x, t')
         | (Inr (o1, e1), t') \<Rightarrow> run_commands sh rest o1 e1 t')
   \<and> snd (terminal_execute sh command t) = snd (run_commands sh (segments command) [] [] t)
   \<and> ((\<forall>c \<in> set (segments command). \<not> py_startswith c ''cd '') \<longrightarrow>
        current_path (snd (terminal_execute sh command t)) = current_path t
        \<and> process_cwd (snd (terminal_execute sh command t)) = process_cwd t
        \<and> (\<exists>k\<le>length (segments command).
             spawned (snd (terminal_execute sh command t)) =
               spawned t @ map (\<lambda>c. (c, current_path t)) (take k (segments command))
             \<and> (\<forall>res. fst (run_commands sh (segments command) [] [] t) = Inr res
                   \<longrightarrow> k = length (segments command))))"
proof (intro conjI impI)
  show "\<forall>e \<in> set (spawned (snd (terminal_execute sh command t))).
       e \<in> set (spawned t) \<or> \<not> py_startswith (fst e) ''cd ''"
    using run_commands_spawns_no_cd [of sh "segments command" "[]" "[]" t]
    by (auto simp: terminal_execute_state)
next
  assume "\<not> os_path_isabs (py_strip (drop 3 cmd))"
  then show "cd_target t cmd =
          os_path_abspath (process_cwd t)
            (os_path_join (current_path t) (py_strip (drop 3 cmd)))"
    by (simp add: cd_target_def Let_def)
next
  assume "py_startswith cmd ''cd '' \<and> \<not> os_path_exists t (cd_target t cmd)"
  then show "run_commands sh (cmd # cmds) out err t =
          run_commands sh cmds out
            (err @ ''Directory not found: '' @ cd_target t cmd @ [CHR 0x0A]) t"
    by (simp add: cd_segment_missing)
next
  assume "py_startswith cmd ''cd '' \<and> os_path_exists t (cd_target t cmd)
         \<and> os_chdir (cd_target t cmd) t = Inl e"
  then show "run_commands sh (cmd # cmds) out err t =
          run_commands sh cmds out
            (err @ ''Error changing directory: '' @ str_exc e @ [CHR 0x0A]) t"
    by (simp add: cd_segment_refused)
next
  assume "py_startswith cmd ''cd '' \<and> os_path_exists t (cd_target t cmd)
         \<and> os_chdir (cd_target t cmd) t = Inr t1"
  then show "run_commands sh (cmd # cmds) out err t =
          run_commands sh cmds
            (out @ ''Changed directory to '' @ cd_target t cmd @ [CHR 0x0A]) err
            (t\<lparr>process_cwd := str_path (located t (cd_target t cmd)),
               current_path := cd_target t cmd\<rparr>)"
    by (simp add: cd_segment_entered)
next
  assume nocd: "\<not> py_startswith cmd ''cd ''"
  obtain r t2 where sp: "spawn sh cmd (current_path t) t = (r, t2)"
    by (metis surj_pair)
  have "run_commands sh (cmd # cmds) out err t =
               (case r of
                  Inl x \<Rightarrow> (Inl x, t2)
                | Inr proc \<Rightarrow>
                    run_commands sh cmds
                      (if stdout proc = [] then out else out @ stdout proc @ [CHR 0x0A])
                      (if stderr proc = [] then err else err @ stderr proc @ [CHR 0x0A])
                      t2)"
    using nocd sp by (simp split: sum.splits)
  with sp spawn_records [OF sp] spawn_frame [OF sp]
  show "\<exists>r t2. spawn sh cmd (current_path t) t = (r, t2)
           \<and> spawned t2 = spawned t @ [(cmd, current_path t)]
           \<and> current_path t2 = current_path t \<and> process_cwd t2 = process_cwd t
           \<and> run_commands sh (cmd # cmds) out err t =
               (case r of
                  Inl x \<Rightarrow> (Inl x, t2)
                | Inr proc \<Rightarrow>
                    run_commands sh cmds
                      (if stdout proc = [] then out else out @ stdout proc @ [CHR 0x0A])
                      (if stderr proc = [] then err else err @ stderr proc @ [CHR 0x0A])
                      t2)"
    by blast
next
  show "run_commands sh (pre @ rest) out err t =
        (case run_commands sh pre out err t of
           (Inl x, t') \<Rightarrow> (Inl x, t')
         | (Inr (o1, e1), t') \<Rightarrow> run_commands sh rest o1 e1 t')"
    by (rule run_commands_append)
next
  show "snd (terminal_execute sh command t) = snd (run_commands sh (segments command) [] [] t)"
    by (rule terminal_execute_state)
next
  assume nocd: "\<forall>c \<in> set (segments command). \<not> py_startswith c ''cd ''"
  note all = run_commands_without_cd [OF nocd, of sh "[]" "[]" t]
  from all show "current_path (snd (terminal_execute sh command t)) = current_path t"
    by (simp add: terminal_execute_state)
  from all show "process_cwd (snd (terminal_execute sh command t)) = process_cwd t"
    by (simp add: terminal_execute_state)
  from all show "\<exists>k\<le>length (segments command).
             spawned (snd (terminal_execute sh command t)) =
               spawned t @ map (\<lambda>c. (c, current_path t)) (take k (segments command))
             \<and> (\<forall>res. fst (run_commands sh (segments command) [] [] t) = Inr res
                   \<longrightarrow> k = length (segments command))"
    by (simp add: terminal_execute_state)
qed

theorem cd_is_intercepted_witness:
  "(''pwd'', ''/home/user/uranus_workspace'')
      \<in> set (spawned (snd (terminal_execute example_shell ''cd uranus_workspace & pwd'' machine)))
   \<and> \<not> py_startswith ''pwd'' ''cd ''
   \<and> cd_target machine ''cd uranus_workspace'' = ''/home/user/uranus_workspace''
   \<and> run_commands example_shell [''cd /nowhere'', ''pwd''] [] [] machine =
       run_commands example_shell [''pwd''] []
         (''Directory not found: /nowhere'' @ [CHR 0x0A]) machine
   \<and> run_commands example_shell [''cd /etc'', ''pwd''] [] [] locked =
       run_commands example_shell [''pwd''] []
         (''Error changing directory: [Errno 13] Permission denied: ''
            @ [CHR 0x27] @ ''/etc'' @ [CHR 0x27, CHR 0x0A]) locked
   \<and> run_commands example_shell [''cd /etc'', ''pwd'', ''pwd''] [] [] machine =
       run_commands example_shell [''pwd'', ''pwd'']
         (''Changed directory to /etc'' @ [CHR 0x0A]) []
         (machine\<lparr>process_cwd := ''/etc'', current_path := ''/etc''\<rparr>)
   \<and> (\<exists>r t2. spawn example_shell ''pwd'' ''/etc'' elsewhere = (r, t2)
         \<and> spawned t2 = [(''pwd'', ''/etc'')]
         \<and> current_path t2 = ''/etc'' \<and> process_cwd t2 = ''/home/user'')
   \<and> current_path (snd (terminal_execute example_shell ''pwd & pwd'' elsewhere)) = ''/etc''
   \<and> process_cwd (snd (terminal_execute example_shell ''pwd & pwd'' elsewhere)) = ''/home/user''
   \<and> spawned (snd (terminal_execute example_shell ''pwd & pwd'' elsewhere))
       = [(''pwd'', ''/etc''), (''pwd'', ''/etc'')]
   \<and> spawned (snd (terminal_execute example_shell ''pwd & pwd''
        (snd (terminal_execute example_shell ''cd /etc'' machine))))
       = [(''pwd'', ''/etc''), (''pwd'', ''/etc'')]"
proof -
  let ?later = "snd (terminal_execute example_shell ''cd /etc'' machine)"
  have handed: "(''pwd'', ''/home/user/uranus_workspace'')
      \<in> set (spawned (snd (terminal_execute example_shell ''cd uranus_workspace & pwd'' machine)))"
    by code_simp
  have fresh: "spawned machine = []"
    by (simp add: machine_def)
  have A: "\<not> py_startswith ''pwd'' ''cd ''"
    using cd_is_intercepted
            [where sh = example_shell and command = "''cd uranus_workspace & pwd''"
               and t = machine]
          handed fresh
    by fastforce
  have relative: "\<not> os_path_isabs (py_strip (drop 3 ''cd uranus_workspace''))"
    by code_simp
  have joined: "os_path_abspath (process_cwd machine)
                  (os_path_join (current_path machine) (py_strip (drop 3 ''cd uranus_workspace'')))
                = ''/home/user/uranus_workspace''"
    by code_simp
  have B: "cd_target machine ''cd uranus_workspace'' = ''/home/user/uranus_workspace''"
    using cd_is_intercepted [where t = machine and cmd = "''cd uranus_workspace''"]
          relative joined
    by simp
  have missing: "py_startswith ''cd /nowhere'' ''cd ''
      \<and> \<not> os_path_exists machine (cd_target machine ''cd /nowhere'')"
    by code_simp
  have nowhere: "cd_target machine ''cd /nowhere'' = ''/nowhere''"
    by code_simp
  have C: "run_commands example_shell [''cd /nowhere'', ''pwd''] [] [] machine =
       run_commands example_shell [''pwd''] []
         (''Directory not found: /nowhere'' @ [CHR 0x0A]) machine"
    using cd_is_intercepted
            [where sh = example_shell and t = machine and cmd = "''cd /nowhere''"
               and cmds = "[''pwd'']" and out = "[]" and err = "[]"]
          missing nowhere
    by (simp del: run_commands.simps)
  have refused: "py_startswith ''cd /etc'' ''cd ''
      \<and> os_path_exists locked (cd_target locked ''cd /etc'')
      \<and> os_chdir (cd_target locked ''cd /etc'') locked =
          Inl (OSError (''[Errno 13] Permission denied: '' @ [CHR 0x27] @ ''/etc'' @ [CHR 0x27]))"
    by code_simp
  have D: "run_commands example_shell [''cd /etc'', ''pwd''] [] [] locked =
       run_commands example_shell [''pwd''] []
         (''Error changing directory: [Errno 13] Permission denied: ''
            @ [CHR 0x27] @ ''/etc'' @ [CHR 0x27, CHR 0x0A]) locked"
    using cd_is_intercepted
            [where sh = example_shell and t = locked and cmd = "''cd /etc''"
               and cmds = "[''pwd'']" and out = "[]" and err = "[]"
               and e = "OSError (''[Errno 13] Permission denied: '' @ [CHR 0x27] @ ''/etc''
                          @ [CHR 0x27])"]
          refused
    by (simp del: run_commands.simps)
  have entered: "py_startswith ''cd /etc'' ''cd ''
      \<and> os_path_exists machine (cd_target machine ''cd /etc'')
      \<and> os_chdir (cd_target machine ''cd /etc'') machine
          = Inr (machine\<lparr>process_cwd := ''/etc''\<rparr>)"
    by code_simp
  have tgt: "cd_target machine ''cd /etc'' = ''/etc''"
    by code_simp
  have canon: "str_path (located machine ''/etc'') = ''/etc''"
    by code_simp
  have E: "run_commands example_shell [''cd /etc'', ''pwd'', ''pwd''] [] [] machine =
       run_commands example_shell [''pwd'', ''pwd'']
         (''Changed directory to /etc'' @ [CHR 0x0A]) []
         (machine\<lparr>process_cwd := ''/etc'', current_path := ''/etc''\<rparr>)"
    using entered tgt canon
          cd_is_intercepted
            [where sh = example_shell and t = machine and cmd = "''cd /etc''"
               and cmds = "[''pwd'', ''pwd'']" and out = "[]" and err = "[]"
               and ?t1.0 = "machine\<lparr>process_cwd := ''/etc''\<rparr>"
               and command = "[]" and pre = "[]" and rest = "[]"]
    by (simp del: run_commands.simps)
  have there: "current_path elsewhere = ''/etc'' \<and> process_cwd elsewhere = ''/home/user''
      \<and> spawned elsewhere = []"
    by (simp add: elsewhere_def machine_def)
  have F: "\<exists>r t2. spawn example_shell ''pwd'' ''/etc'' elsewhere = (r, t2)
         \<and> spawned t2 = [(''pwd'', ''/etc'')]
         \<and> current_path t2 = ''/etc'' \<and> process_cwd t2 = ''/home/user''"
    using cd_is_intercepted [where sh = example_shell and t = elsewhere and cmd = "''pwd''"]
          A there
    by fastforce
  have segs: "segments ''pwd & pwd'' = [''pwd'', ''pwd'']"
    by code_simp
  have nocd: "\<forall>c \<in> set (segments ''pwd & pwd''). \<not> py_startswith c ''cd ''"
    using segs A by simp
  have ends: "fst (run_commands example_shell (segments ''pwd & pwd'') [] [] elsewhere)
      = Inr (''/etc'' @ [CHR 0x0A, CHR 0x0A] @ ''/etc'' @ [CHR 0x0A, CHR 0x0A], [])"
    by code_simp
  from cd_is_intercepted [where sh = example_shell and command = "''pwd & pwd''"
                            and t = elsewhere] nocd
  obtain k where
    I1: "current_path (snd (terminal_execute example_shell ''pwd & pwd'' elsewhere))
           = current_path elsewhere"
    and I2: "process_cwd (snd (terminal_execute example_shell ''pwd & pwd'' elsewhere))
           = process_cwd elsewhere"
    and I3: "spawned (snd (terminal_execute example_shell ''pwd & pwd'' elsewhere)) =
           spawned elsewhere
             @ map (\<lambda>c. (c, current_path elsewhere)) (take k (segments ''pwd & pwd''))"
    and I4: "\<forall>res. fst (run_commands example_shell (segments ''pwd & pwd'') [] [] elsewhere)
                    = Inr res \<longrightarrow> k = length (segments ''pwd & pwd'')"
    by blast
  from I4 ends have "k = 2"
    using segs by simp
  with I3 segs there have I: "spawned (snd (terminal_execute example_shell ''pwd & pwd'' elsewhere))
       = [(''pwd'', ''/etc''), (''pwd'', ''/etc'')]"
    by simp
  have stored: "current_path ?later = ''/etc'' \<and> spawned ?later = []"
    by code_simp
  have ends': "fst (run_commands example_shell (segments ''pwd & pwd'') [] [] ?later)
      = Inr (''/etc'' @ [CHR 0x0A, CHR 0x0A] @ ''/etc'' @ [CHR 0x0A, CHR 0x0A], [])"
    by code_simp
  from cd_is_intercepted [where sh = example_shell and command = "''pwd & pwd''"
                            and t = ?later] nocd
  obtain k' where
    J3: "spawned (snd (terminal_execute example_shell ''pwd & pwd'' ?later)) =
           spawned ?later
             @ map (\<lambda>c. (c, current_path ?later)) (take k' (segments ''pwd & pwd''))"
    and J4: "\<forall>res. fst (run_commands example_shell (segments ''pwd & pwd'') [] [] ?later)
                    = Inr res \<longrightarrow> k' = length (segments ''pwd & pwd'')"
    by blast
  from J4 ends' have "k' = 2"
    using segs by simp
  with J3 segs stored have J: "spawned (snd (terminal_execute example_shell ''pwd & pwd'' ?later))
       = [(''pwd'', ''/etc''), (''pwd'', ''/etc'')]"
    by simp
  from handed A B C D E F I1 I2 I J there show ?thesis
    by simp
qed

section \<open>The code execution tool (tool/python\_execute.py)\<close>

subsection \<open>The worker process\<close>












subsection \<open>\<open>PythonExecuteTool.execute\<close>\<close>




subsection \<open>Concrete platforms\<close>



subsection \<open>What \<open>execute\<close> relays\<close>









end
